theory Spec2Isabelle
  imports Complex_Main "HOL-Library.AList" "HOL-Library.Multiset"
begin

section \<open>Python values read from JSON\<close>

text \<open>
  \<^verbatim>\<open>hooks/scripts/peon.py\<close> works on whatever \<^verbatim>\<open>json.load\<close> returns, so the
  model keeps the documents untyped and writes out what Python does when a value has the
  wrong shape.  Numbers are exact rationals (one constructor for Python's int and float,
  no NaN or infinity, arithmetic without rounding), a string is a sequence of code points
  below 256 (a \<open>char\<close> is one code point), and an object is the association list of a
  Python dict: distinct keys in insertion order.
\<close>

datatype json =
    JNull
  | JBool bool
  | JNum rat
  | JStr string
  | JArr "json list"
  | JObj "(string \<times> json) list"

text \<open>The exception classes that can reach the top of \<^verbatim>\<open>main\<close>.\<close>

datatype exn =
    AttributeError
  | TypeError
  | KeyError
  | IndexError
  | OSError
  | FileNotFoundError
  | PermissionError
  | ValueError
  | JSONDecodeError
  | UnicodeDecodeError

text \<open>
  \<^verbatim>\<open>isinstance\<close> against the two base classes the handlers name:
  \<^verbatim>\<open>FileNotFoundError\<close> and \<^verbatim>\<open>PermissionError\<close> derive from \<^verbatim>\<open>OSError\<close>;
  \<^verbatim>\<open>json.JSONDecodeError\<close> and \<^verbatim>\<open>UnicodeDecodeError\<close> derive from
  \<^verbatim>\<open>ValueError\<close> (and neither from the other).
\<close>

definition is_OSError :: "exn \<Rightarrow> bool" where
  "is_OSError e = (e = OSError \<or> e = FileNotFoundError \<or> e = PermissionError)"

definition is_ValueError :: "exn \<Rightarrow> bool" where
  "is_ValueError e = (e = ValueError \<or> e = JSONDecodeError \<or> e = UnicodeDecodeError)"

text \<open>A computation that returns a value or raises: \<open>Inl\<close> is the exception.\<close>

definition on_ok :: "exn + 'a \<Rightarrow> ('a \<Rightarrow> exn + 'b) \<Rightarrow> exn + 'b" where
  "on_ok m f = (case m of Inl e \<Rightarrow> Inl e | Inr x \<Rightarrow> f x)"

text \<open>Truth value of an object, as \<^verbatim>\<open>if x\<close> and \<^verbatim>\<open>not x\<close> test it.\<close>

fun truthy :: "json \<Rightarrow> bool" where
  "truthy JNull = False"
| "truthy (JBool b) = b"
| "truthy (JNum x) = (x \<noteq> 0)"
| "truthy (JStr s) = (s \<noteq> [])"
| "truthy (JArr xs) = (xs \<noteq> [])"
| "truthy (JObj kvs) = (kvs \<noteq> [])"

text \<open>
  \<^verbatim>\<open>==\<close>: \<^verbatim>\<open>True == 1\<close> and \<^verbatim>\<open>1 == 1.0\<close> hold, lists compare element by
  element, dicts by key whatever the order.
\<close>

fun py_eq :: "json \<Rightarrow> json \<Rightarrow> bool" where
  "py_eq JNull JNull = True"
| "py_eq (JBool a) (JBool b) = (a = b)"
| "py_eq (JBool a) (JNum y) = (of_bool a = y)"
| "py_eq (JNum x) (JBool b) = (x = of_bool b)"
| "py_eq (JNum x) (JNum y) = (x = y)"
| "py_eq (JStr s) (JStr t) = (s = t)"
| "py_eq (JArr xs) (JArr ys) = list_all2 py_eq xs ys"
| "py_eq (JObj a) (JObj b) =
     (length a = length b \<and>
      list_all (\<lambda>(k, v). case map_of b k of None \<Rightarrow> False | Some w \<Rightarrow> py_eq v w) a)"
| "py_eq _ _ = False"

text \<open>
  \<^verbatim>\<open>d.get(k, dflt)\<close>: the value under the key, or the default; only a dict has the
  method.
\<close>

definition get_or :: "(string \<times> json) list \<Rightarrow> string \<Rightarrow> json \<Rightarrow> json" where
  "get_or kvs k dflt = (case map_of kvs k of Some v \<Rightarrow> v | None \<Rightarrow> dflt)"

fun dict_get :: "json \<Rightarrow> string \<Rightarrow> json \<Rightarrow> exn + json" where
  "dict_get (JObj kvs) k dflt = Inr (get_or kvs k dflt)"
| "dict_get _ k dflt = Inl AttributeError"

text \<open>\<^verbatim>\<open>d[k] = v\<close> for a string key: an existing key keeps its place, a new one goes last.\<close>

fun dict_set :: "json \<Rightarrow> string \<Rightarrow> json \<Rightarrow> exn + json" where
  "dict_set (JObj kvs) k v = Inr (JObj (AList.update k v kvs))"
| "dict_set _ k v = Inl TypeError"

text \<open>\<^verbatim>\<open>x[k]\<close> for a string key.\<close>

fun subscript :: "json \<Rightarrow> string \<Rightarrow> exn + json" where
  "subscript (JObj kvs) k = (case map_of kvs k of Some v \<Rightarrow> Inr v | None \<Rightarrow> Inl KeyError)"
| "subscript _ k = Inl TypeError"

text \<open>Iteration: a list gives its elements, a string its characters, a dict its keys.\<close>

fun py_iter :: "json \<Rightarrow> exn + json list" where
  "py_iter (JArr xs) = Inr xs"
| "py_iter (JStr s) = Inr (map (\<lambda>c. JStr [c]) s)"
| "py_iter (JObj kvs) = Inr (map (\<lambda>kv. JStr (fst kv)) kvs)"
| "py_iter _ = Inl TypeError"

fun py_len :: "json \<Rightarrow> exn + nat" where
  "py_len (JArr xs) = Inr (length xs)"
| "py_len (JStr s) = Inr (length s)"
| "py_len (JObj kvs) = Inr (length kvs)"
| "py_len _ = Inl TypeError"

fun hashable :: "json \<Rightarrow> bool" where
  "hashable (JArr xs) = False"
| "hashable (JObj kvs) = False"
| "hashable _ = True"

text \<open>
  A Python set, kept as the list of its members: an element equal to a member is not
  added again.  \<^verbatim>\<open>set(x)\<close>, \<^verbatim>\<open>s.add(x)\<close> and \<^verbatim>\<open>x in s\<close> raise on an unhashable
  value.
\<close>

definition set_add :: "json list \<Rightarrow> json \<Rightarrow> json list" where
  "set_add s x = (if list_ex (\<lambda>y. py_eq y x) s then s else s @ [x])"

definition py_set :: "json \<Rightarrow> exn + json list" where
  "py_set x = on_ok (py_iter x)
     (\<lambda>xs. if list_all hashable xs then Inr (foldl set_add [] xs) else Inl TypeError)"

definition set_insert :: "json list \<Rightarrow> json \<Rightarrow> exn + json list" where
  "set_insert s x = (if hashable x then Inr (set_add s x) else Inl TypeError)"

definition set_member :: "json \<Rightarrow> json list \<Rightarrow> exn + bool" where
  "set_member x s = (if hashable x then Inr (list_ex (\<lambda>y. py_eq y x) s) else Inl TypeError)"

text \<open>
  \<^verbatim>\<open>list(s)\<close>: the order in which a set is listed is not specified, so the environment
  supplies it; a supplied order that is not a rearrangement of the members is ignored.
\<close>

definition list_of_set :: "(json list \<Rightarrow> json list) \<Rightarrow> json list \<Rightarrow> json list" where
  "list_of_set order s = (let ys = order s in if mset ys = mset s then ys else s)"

text \<open>A number as arithmetic and comparisons read it (\<^verbatim>\<open>bool\<close> is a subclass of \<^verbatim>\<open>int\<close>).\<close>

fun num_of :: "json \<Rightarrow> rat option" where
  "num_of (JNum x) = Some x"
| "num_of (JBool b) = Some (of_bool b)"
| "num_of _ = None"

section \<open>Paths and project names\<close>

text \<open>\<^verbatim>\<open>os.path.basename\<close> and \<^verbatim>\<open>os.path.join\<close> as \<^verbatim>\<open>posixpath\<close> defines them.\<close>

definition basename :: "string \<Rightarrow> string" where
  "basename p = rev (takeWhile (\<lambda>c. c \<noteq> CHR ''/'') (rev p))"

definition path_join :: "string \<Rightarrow> string \<Rightarrow> string" where
  "path_join a b =
     (if b \<noteq> [] \<and> hd b = CHR ''/'' then b
      else if a = [] \<or> last a = CHR ''/'' then a @ b
      else a @ ''/'' @ b)"

fun os_path_basename :: "json \<Rightarrow> exn + string" where
  "os_path_basename (JStr p) = Inr (basename p)"
| "os_path_basename _ = Inl TypeError"

fun os_path_join :: "string \<Rightarrow> json \<Rightarrow> exn + string" where
  "os_path_join a (JStr b) = Inr (path_join a b)"
| "os_path_join a _ = Inl TypeError"

text \<open>
  \<^verbatim>\<open>str.isalnum\<close> on one character, by its code point: the ASCII digits and letters,
  and beyond ASCII the letters and numeric characters of U+0080 to U+00FF (the ordinal
  indicators, the superscript digits, the micro sign, the vulgar fractions, and the
  accented letters without the multiplication and division signs).
\<close>

definition isalnum :: "char \<Rightarrow> bool" where
  "isalnum c =
     (let n = (of_char c :: nat)
      in (48 \<le> n \<and> n \<le> 57) \<or> (65 \<le> n \<and> n \<le> 90) \<or> (97 \<le> n \<and> n \<le> 122)
         \<or> n = 170 \<or> (178 \<le> n \<and> n \<le> 179) \<or> n = 181 \<or> (185 \<le> n \<and> n \<le> 186)
         \<or> (188 \<le> n \<and> n \<le> 190) \<or> (192 \<le> n \<and> n \<le> 214)
         \<or> (216 \<le> n \<and> n \<le> 246) \<or> (248 \<le> n \<and> n \<le> 255))"

text \<open>
  Lines 321-323:
  \<^verbatim>\<open>project = os.path.basename(cwd) if cwd else 'claude'\<close>, then only alphanumerics and
  the characters of \<^verbatim>\<open>' ._-'\<close> are kept, and an empty result is \<^verbatim>\<open>'claude'\<close> again.
\<close>

definition project_name :: "json \<Rightarrow> exn + string" where
  "project_name cwd =
     on_ok (if truthy cwd then os_path_basename cwd else Inr ''claude'')
       (\<lambda>project.
          let kept = filter (\<lambda>c. isalnum c \<or> c \<in> set '' ._-'') project
          in Inr (if kept = [] then ''claude'' else kept))"

section \<open>The environment of one invocation\<close>

text \<open>
  What opening a file and parsing it gives: the document, or the exception that
  \<^verbatim>\<open>open\<close>, the read or \<^verbatim>\<open>json.load\<close> raised (a missing file
  \<^verbatim>\<open>FileNotFoundError\<close>, an unreadable one \<^verbatim>\<open>PermissionError\<close>, text that is not
  JSON \<^verbatim>\<open>JSONDecodeError\<close>, bytes that are not UTF-8 \<^verbatim>\<open>UnicodeDecodeError\<close>).
\<close>

datatype read_result = Parsed json | Fails exn

text \<open>
  Everything the handler reads from outside: standard input, the three files, the pause
  marker, the plugin root, the clock, the random draw, the listing order of a set, which
  sound files exist and whether the terminal has the focus.
\<close>

record env =
  stdin :: read_result
  config_file :: read_result
  state_file :: read_result
  manifest_file :: "string \<Rightarrow> read_result"
  paused_exists :: bool
  plugin_root :: string
  now :: rat
  draw :: nat
  set_order :: "json list \<Rightarrow> json list"
  isfile :: "string \<Rightarrow> bool"
  focused :: bool

text \<open>
  What the handler does to the outside, in the order it does it.  Playing a sound, showing
  a notification and writing the state file are calls to collaborators whose own failures
  are outside this model.
\<close>

datatype effect =
    Stderr string
  | SetTitle string
  | PlaySound string json
  | SaveState json
  | ShowNotification string string

section \<open>Helpers\<close>

text \<open>
  \<^verbatim>\<open>load_json(path, default=None)\<close>, lines 45-50.  The handler catches
  \<^verbatim>\<open>(FileNotFoundError, json.JSONDecodeError, OSError)\<close>; any other exception goes on
  to the caller.  \<open>None\<close> for the default is Python's \<^verbatim>\<open>None\<close>.
\<close>

definition load_json :: "read_result \<Rightarrow> json option \<Rightarrow> exn + json" where
  "load_json file dflt =
     (case file of
        Parsed doc \<Rightarrow> Inr doc
      | Fails e \<Rightarrow>
          if e = FileNotFoundError \<or> e = JSONDecodeError \<or> is_OSError e
          then Inr (case dflt of Some d \<Rightarrow> d | None \<Rightarrow> JObj [])
          else Inl e)"

section \<open>Sound picker\<close>

text \<open>
  \<^verbatim>\<open>random.choice(pool)\<close>: \<^verbatim>\<open>IndexError\<close> on an empty pool, otherwise
  \<^verbatim>\<open>pool[i]\<close> for a drawn index below the length; on a dict that subscript is a missing
  integer key.
\<close>

fun random_choice :: "nat \<Rightarrow> json \<Rightarrow> exn + json" where
  "random_choice r (JArr xs) = (if xs = [] then Inl IndexError else Inr (xs ! (r mod length xs)))"
| "random_choice r (JStr s) = (if s = [] then Inl IndexError else Inr (JStr [s ! (r mod length s)]))"
| "random_choice r (JObj kvs) = (if kvs = [] then Inl IndexError else Inl KeyError)"
| "random_choice r _ = Inl TypeError"

text \<open>\<^verbatim>\<open>[s for s in sounds if s['file'] != last]\<close>\<close>

fun not_last :: "json \<Rightarrow> json list \<Rightarrow> exn + json list" where
  "not_last lst [] = Inr []"
| "not_last lst (s # ss) =
     on_ok (subscript s ''file'')
       (\<lambda>f. on_ok (not_last lst ss) (\<lambda>rest. Inr (if py_eq f lst then rest else s # rest)))"

text \<open>
  \<^verbatim>\<open>pick_sound(pack_dir, category, state)\<close>, lines 205-216.  The result is the path of
  the sound (or \<open>None\<close>) and the state with \<^verbatim>\<open>last_played[category]\<close> stored.
\<close>

definition pick_sound :: "env \<Rightarrow> string \<Rightarrow> string \<Rightarrow> json \<Rightarrow> exn + (string option \<times> json)" where
  "pick_sound e pack_dir category state =
     on_ok (load_json (manifest_file e (path_join pack_dir ''openpeon.json'')) None) (\<lambda>manifest.
     on_ok (dict_get manifest ''categories'' (JObj [])) (\<lambda>cats.
     on_ok (dict_get cats category (JObj [])) (\<lambda>cat.
     on_ok (dict_get cat ''sounds'' (JArr [])) (\<lambda>sounds.
     if \<not> truthy sounds then Inr (None, state)
     else
     on_ok (dict_get state ''last_played'' (JObj [])) (\<lambda>played.
     on_ok (dict_get played category (JStr [])) (\<lambda>lst.
     on_ok (py_len sounds) (\<lambda>n.
     on_ok (if n \<le> 1 then Inr sounds
            else on_ok (py_iter sounds) (\<lambda>ss. on_ok (not_last lst ss) (\<lambda>p. Inr (JArr p)))) (\<lambda>pool.
     on_ok (random_choice (draw e) pool) (\<lambda>pick.
     on_ok (subscript pick ''file'') (\<lambda>file.
     on_ok (dict_set played category file) (\<lambda>played'.
     on_ok (dict_set state ''last_played'' played') (\<lambda>state'.
     on_ok (os_path_join pack_dir file) (\<lambda>path.
     Inr (Some path, state'))))))))))))))"

section \<open>Annoyed (rapid-prompt) detection\<close>

text \<open>\<^verbatim>\<open>[t for t in ... if now - t < window_sec]\<close>\<close>

fun recent :: "rat \<Rightarrow> json \<Rightarrow> json list \<Rightarrow> exn + json list" where
  "recent nw window_sec [] = Inr []"
| "recent nw window_sec (t # ts) =
     (case num_of t of
        None \<Rightarrow> Inl TypeError
      | Some x \<Rightarrow>
          (case num_of window_sec of
             None \<Rightarrow> Inl TypeError
           | Some w \<Rightarrow>
               on_ok (recent nw window_sec ts)
                 (\<lambda>rest. Inr (if nw - x < w then t # rest else rest))))"

text \<open>
  \<^verbatim>\<open>check_annoyed(state, threshold, window_sec)\<close>, lines 223-228, with the clock reading
  as an argument.  The result is the state with \<^verbatim>\<open>prompt_timestamps\<close> replaced and the
  value of \<^verbatim>\<open>len(ts) >= threshold\<close>.
\<close>

definition check_annoyed :: "rat \<Rightarrow> json \<Rightarrow> json \<Rightarrow> json \<Rightarrow> exn + (json \<times> bool)" where
  "check_annoyed nw state threshold window_sec =
     on_ok (dict_get state ''prompt_timestamps'' (JArr [])) (\<lambda>stored.
     on_ok (py_iter stored) (\<lambda>old.
     on_ok (recent nw window_sec old) (\<lambda>kept.
     let ts = kept @ [JNum nw] in
     on_ok (dict_set state ''prompt_timestamps'' (JArr ts)) (\<lambda>state'.
     (case num_of threshold of
        None \<Rightarrow> Inl TypeError
      | Some th \<Rightarrow> Inr (state', th \<le> of_nat (length ts)))))))"

section \<open>Main hook handler\<close>

text \<open>
  The handler is \<^verbatim>\<open>main\<close> from line 283 on: \<^verbatim>\<open>ensure_user_data\<close> has run and
  \<^verbatim>\<open>handle_cli\<close> has returned \<^verbatim>\<open>False\<close> (an event-handling invocation).  The
  result of a run is the list of its effects and the exception that ended it, \<open>None\<close> for
  a normal return (exit status 0).
\<close>

type_synonym outcome = "effect list \<times> exn option"

definition raising :: "exn + 'a \<Rightarrow> ('a \<Rightarrow> outcome) \<Rightarrow> outcome" where
  "raising m f = (case m of Inl e \<Rightarrow> ([], Some e) | Inr x \<Rightarrow> f x)"

definition after :: "effect list \<Rightarrow> outcome \<Rightarrow> outcome" where
  "after done_before r = (done_before @ fst r, snd r)"

text \<open>The fallback of line 289-293, used when the config file cannot be loaded.\<close>

definition default_config :: json where
  "default_config = JObj
     [(''enabled'', JBool True), (''volume'', JNum (1 / 2)), (''active_pack'', JStr ''peon''),
      (''desktop_notifications'', JBool True),
      (''annoyed_threshold'', JNum 3), (''annoyed_window_seconds'', JNum 10),
      (''categories'', JObj [])]"

text \<open>The variables the mapping of lines 329-368 sets.\<close>

record decision =
  category :: string
  status :: string
  marker :: string
  notify :: bool
  msg :: string

text \<open>
  Lines 329-368, "Map hook events to CESP categories".  \<open>None\<close> is the bare
  \<^verbatim>\<open>return\<close> of an event that is not handled.  \<^verbatim>\<open>check_annoyed\<close> is the right
  operand of \<^verbatim>\<open>and\<close>: it runs only when \<^verbatim>\<open>cat_config.get('user.spam', True)\<close> is
  true.
\<close>

definition map_event ::
  "rat \<Rightarrow> json \<Rightarrow> json \<Rightarrow> json \<Rightarrow> json \<Rightarrow> string \<Rightarrow> json \<Rightarrow> exn + (decision \<times> json) option" where
  "map_event nw config cat_config event_name ntype project state =
     (if py_eq event_name (JStr ''SessionStart'') then
        Inr (Some (\<lparr>category = ''session.start'', status = ''ready'', marker = [],
                     notify = False, msg = []\<rparr>, state))
      else if py_eq event_name (JStr ''UserPromptSubmit'') then
        on_ok (dict_get config ''annoyed_threshold'' (JNum 3)) (\<lambda>threshold.
        on_ok (dict_get config ''annoyed_window_seconds'' (JNum 10)) (\<lambda>window.
        on_ok (dict_get cat_config ''user.spam'' (JBool True)) (\<lambda>spam.
        on_ok (if truthy spam then check_annoyed nw state threshold window
               else Inr (state, False)) (\<lambda>checked.
        if snd checked then
          Inr (Some (\<lparr>category = ''user.spam'', status = ''working'', marker = [],
                       notify = False, msg = []\<rparr>, fst checked))
        else
          on_ok (dict_get cat_config ''task.acknowledge'' (JBool True)) (\<lambda>ack.
          Inr (Some (\<lparr>category = (if truthy ack then ''task.acknowledge'' else []),
                       status = ''working'', marker = [],
                       notify = False, msg = []\<rparr>, fst checked)))))))
      else if py_eq event_name (JStr ''Stop'') then
        Inr (Some (\<lparr>category = ''task.complete'', status = ''done'', marker = ''* '',
                     notify = False, msg = []\<rparr>, state))
      else if py_eq event_name (JStr ''Notification'') then
        (if py_eq ntype (JStr ''permission_prompt'') then
           Inr (Some (\<lparr>category = ''input.required'', status = ''needs approval'',
                        marker = ''* '', notify = True,
                        msg = project @ '' -- A tool is waiting for your permission''\<rparr>, state))
         else if py_eq ntype (JStr ''idle_prompt'') then
           Inr (Some (\<lparr>category = ''task.complete'', status = ''done'',
                        marker = ''* '', notify = True,
                        msg = project @ '' -- Ready for your next instruction''\<rparr>, state))
         else Inr None)
      else Inr None)"

text \<open>
  Lines 370-372, "Category enabled check":
  \<^verbatim>\<open>if category and not cat_config.get(category, True): category = ''\<close>
\<close>

definition category_enabled_check :: "json \<Rightarrow> string \<Rightarrow> exn + string" where
  "category_enabled_check cat_config cat =
     (if cat = [] then Inr cat
      else on_ok (dict_get cat_config cat (JBool True))
             (\<lambda>enabled. Inr (if truthy enabled then cat else [])))"

text \<open>
  Lines 374-393: the terminal title, the sound, the one save of the state, the desktop
  notification.
\<close>

definition act ::
  "env \<Rightarrow> json \<Rightarrow> json \<Rightarrow> json \<Rightarrow> string \<Rightarrow> decision \<Rightarrow> string \<Rightarrow> json \<Rightarrow> outcome" where
  "act e volume active_pack desktop_notif project d cat state =
     (let title = marker d @ project @ '': '' @ status d
      in after [SetTitle title]
        (raising (os_path_join (path_join (plugin_root e) ''packs'') active_pack) (\<lambda>pack_dir.
         raising (if cat \<noteq> [] \<and> \<not> paused_exists e then pick_sound e pack_dir cat state
                  else Inr (None, state)) (\<lambda>picked.
         ((case fst picked of
             None \<Rightarrow> []
           | Some sound_file \<Rightarrow>
               if sound_file \<noteq> [] \<and> isfile e sound_file then [PlaySound sound_file volume]
               else [])
          @ [SaveState (snd picked)]
          @ (if notify d \<and> \<not> paused_exists e \<and> truthy desktop_notif \<and> \<not> focused e
             then [ShowNotification title (msg d)] else []),
          None)))))"

text \<open>The line printed to standard error at a session start while paused.\<close>

definition paused_notice :: string where
  "paused_notice =
     ''peon-ping: sounds paused -- use 'peon --resume' or '/peon-ping-toggle' to unpause''"

text \<open>
  Lines 321-393, what an event does once it is past the enabled check and the
  agent-session check.
\<close>

definition handle_event ::
  "env \<Rightarrow> json \<Rightarrow> json \<Rightarrow> json \<Rightarrow> json \<Rightarrow> json \<Rightarrow> json \<Rightarrow> json \<Rightarrow> json \<Rightarrow> json \<Rightarrow> outcome" where
  "handle_event e config volume active_pack cat_config desktop_notif event_name ntype cwd state =
     raising (project_name cwd) (\<lambda>project.
     after (if py_eq event_name (JStr ''SessionStart'') \<and> paused_exists e
            then [Stderr paused_notice] else [])
       (raising (map_event (now e) config cat_config event_name ntype project state) (\<lambda>mapped.
        case mapped of
          None \<Rightarrow> ([], None)
        | Some ds \<Rightarrow>
            raising (category_enabled_check cat_config (category (fst ds))) (\<lambda>cat.
            act e volume active_pack desktop_notif project (fst ds) cat (snd ds)))))"

text \<open>
  \<^verbatim>\<open>main\<close>, lines 283-319 and then \<open>handle_event\<close>.  The parse of standard input is
  guarded by \<^verbatim>\<open>except (json.JSONDecodeError, ValueError): return\<close>.
\<close>

definition main :: "env \<Rightarrow> outcome" where
  "main e =
     (case stdin e of
        Fails x \<Rightarrow> if x = JSONDecodeError \<or> is_ValueError x then ([], None) else ([], Some x)
      | Parsed event \<Rightarrow>
          raising (load_json (config_file e) (Some default_config)) (\<lambda>config.
          raising (load_json (state_file e) None) (\<lambda>state.
          raising (dict_get config ''enabled'' (JBool True)) (\<lambda>enabled.
          if \<not> truthy enabled then ([], None)
          else
          raising (dict_get config ''volume'' (JNum (1 / 2))) (\<lambda>volume.
          raising (dict_get config ''active_pack'' (JStr ''peon'')) (\<lambda>active_pack.
          raising (dict_get config ''categories'' (JObj [])) (\<lambda>cat_config.
          raising (dict_get config ''desktop_notifications'' (JBool True)) (\<lambda>desktop_notif.
          raising (dict_get event ''hook_event_name'' (JStr [])) (\<lambda>event_name.
          raising (dict_get event ''notification_type'' (JStr [])) (\<lambda>ntype.
          raising (dict_get event ''cwd'' (JStr [])) (\<lambda>cwd.
          raising (dict_get event ''session_id'' (JStr [])) (\<lambda>session_id.
          raising (dict_get event ''permission_mode'' (JStr [])) (\<lambda>perm_mode.
          raising (on_ok (dict_get state ''agent_sessions'' (JArr [])) py_set) (\<lambda>agent_sessions.
          if py_eq perm_mode (JStr ''delegate'') then
            raising (set_insert agent_sessions session_id) (\<lambda>grown.
            raising (dict_set state ''agent_sessions''
                       (JArr (list_of_set (set_order e) grown))) (\<lambda>state'.
            ([SaveState state'], None)))
          else
            raising (set_member session_id agent_sessions) (\<lambda>flagged.
            if flagged then ([], None)
            else handle_event e config volume active_pack cat_config desktop_notif
                   event_name ntype cwd state)))))))))))))))"

section \<open>The specification's wording\<close>

text \<open>
  The burst detector as the specification words it,
  \<^verbatim>\<open>record_and_check(timestamps, now, threshold, window_seconds)\<close>: drop every timestamp
  older than \<^verbatim>\<open>window_seconds\<close> relative to \<^verbatim>\<open>now\<close>, append \<^verbatim>\<open>now\<close>, and report
  whether the count after the append is at least the threshold.
\<close>

definition spec_record_and_check :: "rat list \<Rightarrow> rat \<Rightarrow> rat \<Rightarrow> rat \<Rightarrow> rat list \<times> bool" where
  "spec_record_and_check timestamps nw threshold window_seconds =
     (let pruned = filter (\<lambda>t. \<not> window_seconds < nw - t) timestamps;
          updated = pruned @ [nw]
      in (updated, threshold \<le> of_nat (length updated)))"

text \<open>
  A sequence of prompts: \<^verbatim>\<open>check_annoyed\<close> is called at each of the given times in
  turn, on the state the call before left; the result lists what each call reported.
\<close>

fun prompts :: "json \<Rightarrow> json \<Rightarrow> json \<Rightarrow> rat list \<Rightarrow> exn + (json \<times> bool list)" where
  "prompts state threshold window_sec [] = Inr (state, [])"
| "prompts state threshold window_sec (t # ts) =
     on_ok (check_annoyed t state threshold window_sec) (\<lambda>r.
     on_ok (prompts (fst r) threshold window_sec ts) (\<lambda>rs.
     Inr (fst rs, snd r # snd rs)))"

section \<open>Successive invocations\<close>

text \<open>
  The process is started once per event and remembers nothing but the state file.  A run
  of several invocations hands each one the state file the one before left: the document
  of its \<open>SaveState\<close> if it wrote one, the file as it was otherwise.
\<close>

fun saved_state :: "effect list \<Rightarrow> json option" where
  "saved_state [] = None"
| "saved_state (SaveState s # es) = (case saved_state es of None \<Rightarrow> Some s | Some s' \<Rightarrow> Some s')"
| "saved_state (x # es) = saved_state es"

definition state_after :: "read_result \<Rightarrow> outcome \<Rightarrow> read_result" where
  "state_after file r = (case saved_state (fst r) of None \<Rightarrow> file | Some s \<Rightarrow> Parsed s)"

fun run :: "read_result \<Rightarrow> env list \<Rightarrow> outcome list" where
  "run file [] = []"
| "run file (e # es) =
     (let r = main (e\<lparr>state_file := file\<rparr>) in r # run (state_after file r) es)"

text \<open>Feedback to the user: a terminal title, a sound, a desktop notification.\<close>

fun is_feedback :: "effect \<Rightarrow> bool" where
  "is_feedback (SetTitle t) = True"
| "is_feedback (PlaySound p v) = True"
| "is_feedback (ShowNotification t m) = True"
| "is_feedback (Stderr m) = False"
| "is_feedback (SaveState s) = False"

definition silent :: "outcome \<Rightarrow> bool" where
  "silent r = (\<not> list_ex is_feedback (fst r))"

text \<open>
  A session id is flagged in a state file when \<^verbatim>\<open>session_id in agent_sessions\<close> of
  lines 312 and 318 evaluates to \<^verbatim>\<open>True\<close> on the document loaded from it.
\<close>

definition flagged :: "json \<Rightarrow> read_result \<Rightarrow> bool" where
  "flagged sid file =
     (case on_ok (load_json file None)
             (\<lambda>state. on_ok (dict_get state ''agent_sessions'' (JArr [])) py_set) of
        Inl x \<Rightarrow> False
      | Inr members \<Rightarrow> set_member sid members = Inr True)"

text \<open>The session id an invocation's event carries: \<^verbatim>\<open>event.get('session_id', '')\<close>.\<close>

definition session_id_of :: "env \<Rightarrow> json option" where
  "session_id_of e =
     (case stdin e of
        Fails x \<Rightarrow> None
      | Parsed event \<Rightarrow>
          (case dict_get event ''session_id'' (JStr []) of Inl x \<Rightarrow> None | Inr s \<Rightarrow> Some s))"

section \<open>Example environments\<close>

text \<open>
  A first run on a fresh installation: no config file (the fallback of line 289 applies),
  no state file, no sound pack, nothing paused, the terminal not in the foreground.  The
  examples below change only the fields they are about.
\<close>

definition fresh_env :: env where
  "fresh_env =
     \<lparr>stdin = Parsed (JObj []),
      config_file = Fails FileNotFoundError,
      state_file = Fails FileNotFoundError,
      manifest_file = (\<lambda>p. Fails FileNotFoundError),
      paused_exists = False,
      plugin_root = ''/plugin'',
      now = 1000,
      draw = 0,
      set_order = (\<lambda>xs. xs),
      isfile = (\<lambda>p. True),
      focused = False\<rparr>"

definition event_of :: "(string \<times> string) list \<Rightarrow> read_result" where
  "event_of kvs = Parsed (JObj (map (\<lambda>kv. (fst kv, JStr (snd kv))) kvs))"

text \<open>
  A sound pack whose manifest lists the same file twice under \<^verbatim>\<open>task.complete\<close>, and
  a \<^verbatim>\<open>Stop\<close> event on a fresh installation that has this pack.
\<close>

definition duplicate_pack :: json where
  "duplicate_pack =
     JObj [(''categories'', JObj [(''task.complete'',
       JObj [(''sounds'', JArr [JObj [(''file'', JStr ''a.wav'')],
                                JObj [(''file'', JStr ''a.wav'')]])])])]"

definition stop_env :: env where
  "stop_env =
     fresh_env\<lparr>stdin := event_of [(''hook_event_name'', ''Stop'')],
               manifest_file := (\<lambda>p. Parsed duplicate_pack)\<rparr>"

text \<open>A config file that switches the feature off, and a \<^verbatim>\<open>Stop\<close> event under it.\<close>

definition disabled_config :: json where
  "disabled_config = JObj [(''enabled'', JBool False)]"

definition disabled_stop_env :: env where
  "disabled_stop_env =
     fresh_env\<lparr>stdin := event_of [(''hook_event_name'', ''Stop'')],
               config_file := Parsed disabled_config,
               state_file := Parsed (JObj [(''prompt_timestamps'', JArr [JNum 990])])\<rparr>"

text \<open>The titles written and the sound files played, in order.\<close>

fun titles :: "effect list \<Rightarrow> string list" where
  "titles [] = []"
| "titles (SetTitle t # es) = t # titles es"
| "titles (x # es) = titles es"

fun sounds_played :: "effect list \<Rightarrow> string list" where
  "sounds_played [] = []"
| "sounds_played (PlaySound p v # es) = p # sounds_played es"
| "sounds_played (x # es) = sounds_played es"

text \<open>The \<^verbatim>\<open>Stop\<close> event above under a config that switches \<^verbatim>\<open>task.complete\<close> off.\<close>

definition muted_config :: json where
  "muted_config = JObj [(''categories'', JObj [(''task.complete'', JBool False)])]"

definition muted_stop_env :: env where
  "muted_stop_env = stop_env\<lparr>config_file := Parsed muted_config\<rparr>"

text \<open>
  A prompt on an installation whose state holds two prompt timestamps, 100 and 5 seconds
  old, and two configs: one switches \<^verbatim>\<open>user.spam\<close> off, the other
  \<^verbatim>\<open>task.acknowledge\<close>.
\<close>

definition spam_off_config :: json where
  "spam_off_config = JObj [(''categories'', JObj [(''user.spam'', JBool False)])]"

definition prompt_env :: env where
  "prompt_env =
     fresh_env\<lparr>stdin := event_of [(''hook_event_name'', ''UserPromptSubmit'')],
               state_file := Parsed (JObj [(''prompt_timestamps'', JArr [JNum 900, JNum 995])])\<rparr>"

definition ack_off_config :: json where
  "ack_off_config = JObj [(''categories'', JObj [(''task.acknowledge'', JBool False)])]"

text \<open>
  The state \<^verbatim>\<open>pick_sound\<close> leaves after picking the file \<open>f\<close>:
  \<^verbatim>\<open>state.setdefault('last_played', {})[category] = f\<close>.
\<close>

definition remember :: "(string \<times> json) list \<Rightarrow> (string \<times> json) list \<Rightarrow> string \<Rightarrow> string \<Rightarrow> json" where
  "remember st played cat f =
     JObj (AList.update ''last_played'' (JObj (AList.update cat (JStr f) played)) st)"

text \<open>A sound entry of the manifest names the file \<open>f\<close>: \<^verbatim>\<open>s['file']\<close> is \<open>f\<close>.\<close>

definition has_file :: "json \<Rightarrow> string \<Rightarrow> bool" where
  "has_file s f = (subscript s ''file'' = Inr (JStr f))"

text \<open>
  A pack with two different sounds under \<^verbatim>\<open>task.complete\<close>, and a state in which
  \<^verbatim>\<open>a.wav\<close> was played last.
\<close>

definition two_sound_pack :: json where
  "two_sound_pack =
     JObj [(''categories'', JObj [(''task.complete'',
       JObj [(''sounds'', JArr [JObj [(''file'', JStr ''a.wav'')],
                                JObj [(''file'', JStr ''b.wav'')]])])])]"

definition two_sound_env :: env where
  "two_sound_env = fresh_env\<lparr>manifest_file := (\<lambda>p. Parsed two_sound_pack)\<rparr>"

definition played_a :: "(string \<times> json) list" where
  "played_a = [(''last_played'', JObj [(''task.complete'', JStr ''a.wav'')])]"

text \<open>
  The value a hashable object is compared by: \<^verbatim>\<open>True\<close> and \<^verbatim>\<open>False\<close> are the
  numbers 1 and 0.
\<close>

fun key_of :: "json \<Rightarrow> json" where
  "key_of (JBool b) = JNum (of_bool b)"
| "key_of x = x"

text \<open>
  The state saved on the marking path of lines 313-317: the loaded state with
  \<^verbatim>\<open>agent_sessions\<close> replaced by the listing of the set with the session id added.
\<close>

definition marked :: "env \<Rightarrow> (string \<times> json) list \<Rightarrow> json list \<Rightarrow> json \<Rightarrow> json" where
  "marked e st members sid =
     JObj (AList.update ''agent_sessions''
             (JArr (list_of_set (set_order e) (set_add members sid))) st)"

text \<open>
  A \<^verbatim>\<open>delegate\<close> event of session \<^verbatim>\<open>s1\<close>, under a config that switches the feature
  off and under the default config, and a later \<^verbatim>\<open>Stop\<close> event of the same session.
\<close>

definition delegate_off_env :: env where
  "delegate_off_env =
     fresh_env\<lparr>stdin := event_of [(''permission_mode'', ''delegate''), (''session_id'', ''s1'')],
               config_file := Parsed disabled_config\<rparr>"

definition delegate_env :: env where
  "delegate_env =
     fresh_env\<lparr>stdin := event_of [(''permission_mode'', ''delegate''), (''session_id'', ''s1'')]\<rparr>"

definition stop_s1_env :: env where
  "stop_s1_env =
     fresh_env\<lparr>stdin := event_of [(''hook_event_name'', ''Stop''), (''session_id'', ''s1'')]\<rparr>"

text \<open>
  A \<^verbatim>\<open>delegate\<close> event that carries no session id, the same event under a config that
  switches the feature off, and a \<^verbatim>\<open>Stop\<close> event of an ordinary session that carries
  no session id either.
\<close>

definition anonymous_delegate_env :: env where
  "anonymous_delegate_env = fresh_env\<lparr>stdin := event_of [(''permission_mode'', ''delegate'')]\<rparr>"

definition anonymous_delegate_off_env :: env where
  "anonymous_delegate_off_env = anonymous_delegate_env\<lparr>config_file := Parsed disabled_config\<rparr>"

definition anonymous_stop_env :: env where
  "anonymous_stop_env = fresh_env\<lparr>stdin := event_of [(''hook_event_name'', ''Stop'')]\<rparr>"

text \<open>
  A pack that lists the same file twice under \<^verbatim>\<open>input.required\<close>, and the permission
  prompt for the project \<^verbatim>\<open>/home/u/myproj\<close> on a fresh installation that has this pack.
\<close>

definition duplicate_prompt_pack :: json where
  "duplicate_prompt_pack =
     JObj [(''categories'', JObj [(''input.required'',
       JObj [(''sounds'', JArr [JObj [(''file'', JStr ''a.wav'')],
                                JObj [(''file'', JStr ''a.wav'')]])])])]"

definition permission_env :: env where
  "permission_env =
     fresh_env\<lparr>stdin := event_of [(''hook_event_name'', ''Notification''),
                                  (''notification_type'', ''permission_prompt''),
                                  (''cwd'', ''/home/u/myproj'')],
               manifest_file := (\<lambda>p. Parsed duplicate_prompt_pack)\<rparr>"

section \<open>Basic facts\<close>

lemma on_ok_simps [simp]: "on_ok (Inl e) f = Inl e" "on_ok (Inr x) f = f x"
  by (simp_all add: on_ok_def)

lemma raising_simps [simp]: "raising (Inl e) g = ([], Some e)" "raising (Inr x) g = g x"
  by (simp_all add: raising_def)

lemma after_simp [simp]: "after xs r = (xs @ fst r, snd r)"
  by (simp add: after_def)

lemma get_or_simps [simp]:
  "get_or [] k d = d"
  "get_or ((k', v) # kvs) k d = (if k = k' then v else get_or kvs k d)"
  by (simp_all add: get_or_def)

lemma get_or_update [simp]:
  "get_or (AList.update k v kvs) k' d = (if k' = k then v else get_or kvs k' d)"
  by (simp add: get_or_def update_conv')

lemma py_eq_JStr [simp]: "py_eq x (JStr s) = (x = JStr s)"
  by (cases x) auto

text \<open>An accented letter of a directory name is kept: \<^verbatim>\<open>/home/u/caf\<close> with U+00E9.\<close>

lemma project_name_accented:
  "project_name (JStr (''/home/u/caf'' @ [CHR 0xE9])) = Inr (''caf'' @ [CHR 0xE9])"
  by (simp add: project_name_def basename_def isalnum_def)

section \<open>The burst detector\<close>

lemma recent_nums:
  "recent nw (JNum w) (map JNum ts) = Inr (map JNum (filter (\<lambda>t. nw - t < w) ts))"
  by (induction ts) simp_all

lemma check_annoyed_nums:
  assumes "dict_get (JObj kvs) ''prompt_timestamps'' (JArr []) = Inr (JArr (map JNum ts))"
  shows "check_annoyed nw (JObj kvs) (JNum th) (JNum w) =
           Inr (JObj (AList.update ''prompt_timestamps''
                        (JArr (map JNum (filter (\<lambda>t. nw - t < w) ts @ [nw]))) kvs),
                th \<le> of_nat (length (filter (\<lambda>t. nw - t < w) ts @ [nw])))"
  using assms by (simp add: check_annoyed_def recent_nums Let_def)

text \<open>
  Claim C2, as amended.  For every stored sequence of timestamps, every clock reading,
  threshold and window, \<^verbatim>\<open>check_annoyed\<close> replaces the stored sequence by exactly the
  stored timestamps that are less than \<^verbatim>\<open>window_sec\<close> old (\<^verbatim>\<open>now - t < window_sec\<close>),
  with the clock reading appended, and reports a burst if and only if the count after the
  append is at least the threshold.  With threshold 3 and window 10, prompts at
  \<open>t\<close>, \<open>t + 1\<close>, \<open>t + 2\<close> report a burst on the third and only there; prompts at
  \<open>t\<close>, \<open>t + 1\<close>, \<open>t + 15\<close> never report one.
\<close>

theorem check_annoyed_prunes_and_counts:
  "(dict_get (JObj kvs) ''prompt_timestamps'' (JArr []) = Inr (JArr (map JNum ts)) \<longrightarrow>
      check_annoyed nw (JObj kvs) (JNum threshold) (JNum window_sec) =
        Inr (JObj (AList.update ''prompt_timestamps''
                     (JArr (map JNum (filter (\<lambda>t. nw - t < window_sec) ts @ [nw]))) kvs),
             threshold \<le> of_nat (length (filter (\<lambda>t. nw - t < window_sec) ts @ [nw]))))
   \<and> on_ok (prompts (JObj []) (JNum 3) (JNum 10) [t, t + 1, t + 2]) (\<lambda>r. Inr (snd r))
       = Inr [False, False, True]
   \<and> on_ok (prompts (JObj []) (JNum 3) (JNum 10) [t, t + 1, t + 15]) (\<lambda>r. Inr (snd r))
       = Inr [False, False, False]"
proof (intro conjI impI)
  assume "dict_get (JObj kvs) ''prompt_timestamps'' (JArr []) = Inr (JArr (map JNum ts))"
  then show "check_annoyed nw (JObj kvs) (JNum threshold) (JNum window_sec) =
        Inr (JObj (AList.update ''prompt_timestamps''
                     (JArr (map JNum (filter (\<lambda>t. nw - t < window_sec) ts @ [nw]))) kvs),
             threshold \<le> of_nat (length (filter (\<lambda>t. nw - t < window_sec) ts @ [nw])))"
    by (rule check_annoyed_nums)
next
  show "on_ok (prompts (JObj []) (JNum 3) (JNum 10) [t, t + 1, t + 2]) (\<lambda>r. Inr (snd r))
       = Inr [False, False, True]"
    by (simp add: check_annoyed_def)
next
  show "on_ok (prompts (JObj []) (JNum 3) (JNum 10) [t, t + 1, t + 15]) (\<lambda>r. Inr (snd r))
       = Inr [False, False, False]"
    by (simp add: check_annoyed_def)
qed

text \<open>
  The theorem at a stored sequence \<open>[1, 5]\<close>, the clock at 12, threshold 2 and window 10:
  the timestamp 1 is 11 seconds old and goes, 5 stays, 12 is appended, and two entries
  reach the threshold.
\<close>

theorem check_annoyed_prunes_and_counts_witness:
  "check_annoyed 12 (JObj [(''prompt_timestamps'', JArr [JNum 1, JNum 5])]) (JNum 2) (JNum 10)
     = Inr (JObj [(''prompt_timestamps'', JArr [JNum 5, JNum 12])], True)"
  using check_annoyed_prunes_and_counts
          [where kvs = "[(''prompt_timestamps'', JArr [JNum 1, JNum 5])]"
             and ts = "[1, 5]" and nw = 12 and threshold = 2 and window_sec = 10 and t = 0]
  by simp

text \<open>
  Claim C2 as the specification states it fails at the edge of the window.  A stored
  timestamp 0 with the clock at 10 and a window of 10 is exactly as old as the window, not
  older: the specification keeps it and, with threshold 2, reports a burst; the code
  drops it and reports none.
\<close>

theorem check_annoyed_window_edge_counterexample:
  "check_annoyed 10 (JObj [(''prompt_timestamps'', JArr [JNum 0])]) (JNum 2) (JNum 10)
     = Inr (JObj [(''prompt_timestamps'', JArr [JNum 10])], False)
   \<and> spec_record_and_check [0] 10 2 10 = ([0, 10], True)"
  by (simp add: check_annoyed_def spec_record_and_check_def)

section \<open>Loading documents\<close>

lemma load_json_parsed: "load_json (Parsed doc) dflt = Inr doc"
  by (simp add: load_json_def)

lemma load_json_degrades:
  "x = FileNotFoundError \<or> x = PermissionError \<or> x = OSError \<or> x = JSONDecodeError \<Longrightarrow>
   load_json (Fails x) (Some d) = Inr d \<and> load_json (Fails x) None = Inr (JObj [])"
  by (auto simp: load_json_def is_OSError_def)

text \<open>
  Claim C7 at a config file whose bytes are not valid UTF-8.  Reading it raises
  \<^verbatim>\<open>UnicodeDecodeError\<close>, a \<^verbatim>\<open>ValueError\<close> that is none of the three classes
  \<^verbatim>\<open>load_json\<close> catches: \<^verbatim>\<open>load_json\<close> raises instead of returning the fallback, and
  the handler ends with that exception.  The same bytes on standard input are caught,
  because the handler around \<^verbatim>\<open>json.loads\<close> in \<^verbatim>\<open>main\<close> also names
  \<^verbatim>\<open>ValueError\<close>.
\<close>

theorem load_json_raises_on_undecodable_file:
  "load_json (Fails UnicodeDecodeError) dflt = Inl UnicodeDecodeError
   \<and> main (fresh_env\<lparr>config_file := Fails UnicodeDecodeError\<rparr>) = ([], Some UnicodeDecodeError)
   \<and> main (fresh_env\<lparr>stdin := Fails UnicodeDecodeError\<rparr>) = ([], None)"
  by (simp add: load_json_def is_OSError_def is_ValueError_def main_def fresh_env_def)

section \<open>Exit status\<close>

text \<open>
  Claim C6 at two \<^verbatim>\<open>Stop\<close> events in a row on a fresh installation whose pack lists
  \<^verbatim>\<open>a.wav\<close> twice under \<^verbatim>\<open>task.complete\<close>.  The first plays \<^verbatim>\<open>a.wav\<close> and stores
  it as last played.  In the second the pool of sounds other than the last played is empty,
  \<^verbatim>\<open>random.choice\<close> raises \<^verbatim>\<open>IndexError\<close> after the title was written, and the
  handler ends with the exception instead of a normal return.
\<close>

theorem main_raises_on_exhausted_pool:
  "run (Fails FileNotFoundError) [stop_env, stop_env] =
     [([SetTitle ''* claude: done'',
        PlaySound ''/plugin/packs/peon/a.wav'' (JNum (1 / 2)),
        SaveState (JObj [(''last_played'', JObj [(''task.complete'', JStr ''a.wav'')])])],
       None),
      ([SetTitle ''* claude: done''], Some IndexError)]"
  by code_simp

section \<open>The enabled switch\<close>

text \<open>
  Claim C8.  Whatever arrives on standard input and whatever the state file holds, when
  the loaded config has a false \<^verbatim>\<open>enabled\<close> the handler has no effect at all: no
  category is looked up, no sound is picked, and the state file is not written, so it is
  after the invocation what it was before.
\<close>

theorem disabled_config_has_no_effect:
  assumes "load_json (config_file e) (Some default_config) = Inr config"
    and "dict_get config ''enabled'' (JBool True) = Inr v"
    and "\<not> truthy v"
  shows "fst (main e) = [] \<and> saved_state (fst (main e)) = None
         \<and> state_after (state_file e) (main e) = state_file e"
  using assms
  by (cases "stdin e"; cases "load_json (state_file e) None")
     (simp_all add: main_def state_after_def)

text \<open>
  The theorem at a \<^verbatim>\<open>Stop\<close> event under a config file \<^verbatim>\<open>{"enabled": false}\<close>, with a
  state file that holds one prompt timestamp.
\<close>

theorem disabled_config_has_no_effect_witness:
  "load_json (config_file disabled_stop_env) (Some default_config) = Inr disabled_config
   \<and> dict_get disabled_config ''enabled'' (JBool True) = Inr (JBool False)
   \<and> \<not> truthy (JBool False)
   \<and> fst (main disabled_stop_env) = []
   \<and> state_after (state_file disabled_stop_env) (main disabled_stop_env)
       = Parsed (JObj [(''prompt_timestamps'', JArr [JNum 990])])"
  using disabled_config_has_no_effect
          [of disabled_stop_env disabled_config "JBool False"]
  by (simp add: load_json_def disabled_stop_env_def disabled_config_def fresh_env_def)

section \<open>Events that pass the enabled check and the agent-session check\<close>

text \<open>
  An event whose permission mode is not \<^verbatim>\<open>delegate\<close> and whose session id is not in
  \<^verbatim>\<open>agent_sessions\<close>, under an enabled config, goes on to lines 321-393 with the
  variables of lines 299-309.
\<close>

lemma main_passes:
  assumes "stdin e = Parsed (JObj ev)"
    and "load_json (config_file e) (Some default_config) = Inr (JObj cf)"
    and "load_json (state_file e) None = Inr (JObj st)"
    and "truthy (get_or cf ''enabled'' (JBool True))"
    and "get_or ev ''permission_mode'' (JStr []) \<noteq> JStr ''delegate''"
    and "py_set (get_or st ''agent_sessions'' (JArr [])) = Inr members"
    and "set_member (get_or ev ''session_id'' (JStr [])) members = Inr False"
  shows "main e =
     handle_event e (JObj cf) (get_or cf ''volume'' (JNum (1 / 2)))
       (get_or cf ''active_pack'' (JStr ''peon'')) (get_or cf ''categories'' (JObj []))
       (get_or cf ''desktop_notifications'' (JBool True))
       (get_or ev ''hook_event_name'' (JStr [])) (get_or ev ''notification_type'' (JStr []))
       (get_or ev ''cwd'' (JStr [])) (JObj st)"
  using assms by (simp add: main_def)



text \<open>
  The permission prompt when the sound lookup returns: for the event
  \<^verbatim>\<open>{"hook_event_name": "Notification", "notification_type": "permission_prompt",
  "cwd": "/home/u/myproj"}\<close> under the default config, with no pause marker and a state in
  which the (missing, hence empty) session id is not flagged, the mapping gives category
  \<^verbatim>\<open>input.required\<close>, status \<^verbatim>\<open>needs approval\<close>, marker \<^verbatim>\<open>"* "\<close> and
  \<^verbatim>\<open>notify = True\<close>, the category check keeps the category, the title written is
  \<^verbatim>\<open>* myproj: needs approval\<close>, and when the terminal is not focused the desktop
  notification carries the message \<^verbatim>\<open>myproj -- A tool is waiting for your permission\<close>.
\<close>

lemma permission_prompt_scenario:
  assumes "stdin e = event_of [(''hook_event_name'', ''Notification''),
                               (''notification_type'', ''permission_prompt''),
                               (''cwd'', ''/home/u/myproj'')]"
    and "load_json (config_file e) (Some default_config) = Inr default_config"
    and "\<not> paused_exists e"
    and "load_json (state_file e) None = Inr (JObj st)"
    and "py_set (get_or st ''agent_sessions'' (JArr [])) = Inr members"
    and "set_member (JStr []) members = Inr False"
    and "pick_sound e (path_join (path_join (plugin_root e) ''packs'') ''peon'')
           ''input.required'' (JObj st) = Inr (sound, st')"
  shows "map_event (now e) default_config (JObj []) (JStr ''Notification'')
           (JStr ''permission_prompt'') ''myproj'' (JObj st)
         = Inr (Some (\<lparr>category = ''input.required'', status = ''needs approval'',
                        marker = ''* '', notify = True,
                        msg = ''myproj -- A tool is waiting for your permission''\<rparr>, JObj st))
       \<and> category_enabled_check (JObj []) ''input.required'' = Inr ''input.required''
       \<and> main e =
           ([SetTitle ''* myproj: needs approval'']
            @ (case sound of
                 None \<Rightarrow> []
               | Some f \<Rightarrow> if f \<noteq> [] \<and> isfile e f then [PlaySound f (JNum (1 / 2))] else [])
            @ [SaveState st']
            @ (if focused e then []
               else [ShowNotification ''* myproj: needs approval''
                       ''myproj -- A tool is waiting for your permission'']),
            None)"
proof -
  have m: "main e = handle_event e default_config (JNum (1 / 2)) (JStr ''peon'') (JObj [])
       (JBool True) (JStr ''Notification'') (JStr ''permission_prompt'')
       (JStr ''/home/u/myproj'') (JObj st)"
    using assms(1,2,4,5,6)
    by (simp add: main_def default_config_def event_of_def)
  have p: "project_name (JStr ''/home/u/myproj'') = Inr ''myproj''"
    by (simp add: project_name_def basename_def isalnum_def)
  have me: "map_event (now e) default_config (JObj []) (JStr ''Notification'')
           (JStr ''permission_prompt'') ''myproj'' (JObj st)
         = Inr (Some (\<lparr>category = ''input.required'', status = ''needs approval'',
                        marker = ''* '', notify = True,
                        msg = ''myproj -- A tool is waiting for your permission''\<rparr>, JObj st))"
    by (simp add: map_event_def)
  have ce: "category_enabled_check (JObj []) ''input.required'' = Inr ''input.required''"
    by (simp add: category_enabled_check_def)
  show ?thesis
    unfolding m
    using assms(3,7)
    by (simp add: me ce handle_event_def p act_def Let_def split: option.split)
qed

text \<open>The scenario on a fresh installation without a sound pack.\<close>

lemma permission_prompt_fresh:
  "main (fresh_env\<lparr>stdin := event_of [(''hook_event_name'', ''Notification''),
                               (''notification_type'', ''permission_prompt''),
                               (''cwd'', ''/home/u/myproj'')]\<rparr>)
    = ([SetTitle ''* myproj: needs approval'', SaveState (JObj []),
        ShowNotification ''* myproj: needs approval''
                       ''myproj -- A tool is waiting for your permission''], None)"
  using permission_prompt_scenario [of "fresh_env\<lparr>stdin := event_of [(''hook_event_name'', ''Notification''),
                               (''notification_type'', ''permission_prompt''),
                               (''cwd'', ''/home/u/myproj'')]\<rparr>" "[]" "[]" None "JObj []"]
  by (simp add: fresh_env_def load_json_def py_set_def set_member_def pick_sound_def)

text \<open>
  Claim C5 at two permission prompts in a row on a fresh installation whose pack lists
  \<^verbatim>\<open>a.wav\<close> twice under \<^verbatim>\<open>input.required\<close>, with the default config, no pause
  marker, an unflagged session and the terminal not focused.  The first prompt goes as the
  claim says.  In the second the title is written, then the pool of sounds other than the
  last played is empty and \<^verbatim>\<open>random.choice\<close> raises \<^verbatim>\<open>IndexError\<close>: the state is
  not saved and no desktop notification is issued.
\<close>

theorem permission_prompt_lost_on_exhausted_pool:
  "run (Fails FileNotFoundError) [permission_env, permission_env] =
     [([SetTitle ''* myproj: needs approval'',
        PlaySound ''/plugin/packs/peon/a.wav'' (JNum (1 / 2)),
        SaveState (JObj [(''last_played'', JObj [(''input.required'', JStr ''a.wav'')])]),
        ShowNotification ''* myproj: needs approval''
          ''myproj -- A tool is waiting for your permission''],
       None),
      ([SetTitle ''* myproj: needs approval''], Some IndexError)]
   \<and> config_file permission_env = Fails FileNotFoundError
   \<and> \<not> paused_exists permission_env \<and> \<not> focused permission_env"
  by code_simp

section \<open>Category toggles\<close>

lemma titles_append [simp]: "titles (xs @ ys) = titles xs @ titles ys"
  by (induction xs rule: titles.induct) simp_all

lemma sounds_played_append [simp]: "sounds_played (xs @ ys) = sounds_played xs @ sounds_played ys"
  by (induction xs rule: sounds_played.induct) simp_all

lemma titles_act:
  "titles (fst (act e volume active_pack desktop_notif project d cat state))
     = [marker d @ project @ '': '' @ status d]"
  by (cases "os_path_join (path_join (plugin_root e) ''packs'') active_pack";
      cases "if cat \<noteq> [] \<and> \<not> paused_exists e
             then pick_sound e (projr (os_path_join (path_join (plugin_root e) ''packs'') active_pack)) cat state
             else Inr (None, state)")
     (auto simp: act_def Let_def split: option.split)

text \<open>
  Claim C9.  For a \<^verbatim>\<open>Stop\<close> event and for an \<^verbatim>\<open>idle_prompt\<close> notification that
  reach the mapping, the category mapped is \<^verbatim>\<open>task.complete\<close> with status
  \<^verbatim>\<open>done\<close> and marker \<^verbatim>\<open>"* "\<close>, and the one title written is
  \<^verbatim>\<open>* <project>: done\<close>, whatever \<^verbatim>\<open>categories\<close> holds: the same with the toggle on,
  off or absent.  With \<^verbatim>\<open>categories["task.complete"]\<close> false the category is cleared, no
  sound is played, and the state is saved as it was loaded (no sound was picked), with a
  normal return.
\<close>

theorem task_complete_toggle:
  assumes "stdin e = Parsed (JObj ev)"
    and "load_json (config_file e) (Some default_config) = Inr (JObj cf)"
    and "load_json (state_file e) None = Inr (JObj st)"
    and "truthy (get_or cf ''enabled'' (JBool True))"
    and "get_or ev ''permission_mode'' (JStr []) \<noteq> JStr ''delegate''"
    and "py_set (get_or st ''agent_sessions'' (JArr [])) = Inr members"
    and "set_member (get_or ev ''session_id'' (JStr [])) members = Inr False"
    and "get_or ev ''hook_event_name'' (JStr []) = JStr ''Stop''
         \<or> get_or ev ''hook_event_name'' (JStr []) = JStr ''Notification''
           \<and> get_or ev ''notification_type'' (JStr []) = JStr ''idle_prompt''"
    and "project_name (get_or ev ''cwd'' (JStr [])) = Inr project"
    and "get_or cf ''categories'' (JObj []) = JObj cats"
    and "get_or cf ''active_pack'' (JStr ''peon'') = JStr pack"
  shows "(\<exists>d. map_event (now e) (JObj cf) (JObj cats) (get_or ev ''hook_event_name'' (JStr []))
               (get_or ev ''notification_type'' (JStr [])) project (JObj st)
             = Inr (Some (d, JObj st))
             \<and> category d = ''task.complete'' \<and> status d = ''done'' \<and> marker d = ''* '')
       \<and> titles (fst (main e)) = [''* '' @ project @ '': done'']
       \<and> (\<not> truthy (get_or cats ''task.complete'' (JBool True)) \<longrightarrow>
            category_enabled_check (JObj cats) ''task.complete'' = Inr []
          \<and> sounds_played (fst (main e)) = []
          \<and> saved_state (fst (main e)) = Some (JObj st)
          \<and> snd (main e) = None)"
proof -
  let ?en = "get_or ev ''hook_event_name'' (JStr [])"
  let ?nt = "get_or ev ''notification_type'' (JStr [])"
  have m: "main e =
     handle_event e (JObj cf) (get_or cf ''volume'' (JNum (1 / 2)))
       (JStr pack) (JObj cats)
       (get_or cf ''desktop_notifications'' (JBool True)) ?en ?nt
       (get_or ev ''cwd'' (JStr [])) (JObj st)"
    using assms(1-7,10,11) by (simp add: main_def)
  obtain d where me: "map_event (now e) (JObj cf) (JObj cats) ?en ?nt project (JObj st) = Inr (Some (d, JObj st))"
    and d: "category d = ''task.complete''" "status d = ''done''" "marker d = ''* ''"
    using assms(8) by (auto simp: map_event_def)
  have ns: "\<not> (?en = JStr ''SessionStart'')"
    using assms(8) by auto
  have ex: "\<exists>d. map_event (now e) (JObj cf) (JObj cats) ?en ?nt project (JObj st)
             = Inr (Some (d, JObj st))
             \<and> category d = ''task.complete'' \<and> status d = ''done'' \<and> marker d = ''* ''"
    using me d by blast
  show ?thesis
  proof (cases "truthy (get_or cats ''task.complete'' (JBool True))")
    case True
    then show ?thesis
      unfolding m using ns ex
      by (simp add: handle_event_def assms(9) me d category_enabled_check_def titles_act)
  next
    case False
    then show ?thesis
      unfolding m using ns ex
      by (simp add: handle_event_def assms(9) me d category_enabled_check_def act_def Let_def)
  qed
qed

text \<open>
  The theorem at a \<^verbatim>\<open>Stop\<close> event with the toggle off, beside the same event with the
  toggle absent: the same title, and a sound only in the second.
\<close>

theorem task_complete_toggle_witness:
  "main muted_stop_env = ([SetTitle ''* claude: done'', SaveState (JObj [])], None)
   \<and> titles (fst (main stop_env)) = [''* claude: done'']
   \<and> sounds_played (fst (main stop_env)) = [''/plugin/packs/peon/a.wav'']"
  using task_complete_toggle [of muted_stop_env "[(''hook_event_name'', JStr ''Stop'')]"
     "[(''categories'', JObj [(''task.complete'', JBool False)])]" "[]" "[]" "''claude''"
     "[(''task.complete'', JBool False)]" "''peon''"]
  by (simp add: muted_stop_env_def stop_env_def muted_config_def fresh_env_def event_of_def
        load_json_def py_set_def set_member_def project_name_def main_def handle_event_def
        map_event_def category_enabled_check_def act_def pick_sound_def duplicate_pack_def
        path_join_def default_config_def is_OSError_def isalnum_def)

section \<open>What an invocation saves\<close>

lemma dict_set_other:
  "dict_set state k v = Inr state' \<Longrightarrow> k' \<noteq> k \<Longrightarrow> dict_get state' k' d = dict_get state k' d"
  by (cases state) auto

lemma pick_sound_keeps:
  assumes "pick_sound e pack_dir cat state = Inr (sound, state')" and "k \<noteq> ''last_played''"
  shows "dict_get state' k d = dict_get state k d"
proof -
  have "state' = state \<or> (\<exists>v. dict_set state ''last_played'' v = Inr state')"
    using assms(1)
    by (auto simp: pick_sound_def on_ok_def split: sum.splits if_splits)
  then show ?thesis
    using assms(2) by (auto dest: dict_set_other)
qed

lemma act_saved:
  "saved_state (fst (act e volume active_pack desktop_notif project d cat state)) = Some s \<Longrightarrow>
   k \<noteq> ''last_played'' \<Longrightarrow> dict_get s k dflt = dict_get state k dflt"
  by (auto simp: act_def Let_def raising_def pick_sound_keeps
           split: sum.splits option.splits if_splits)

lemma act_returns_saved:
  "snd (act e volume active_pack desktop_notif project d cat state) = None \<Longrightarrow>
   saved_state (fst (act e volume active_pack desktop_notif project d cat state)) \<noteq> None"
  by (auto simp: act_def Let_def raising_def split: sum.splits option.splits if_splits)


lemma check_annoyed_nums':
  assumes "get_or kvs ''prompt_timestamps'' (JArr []) = JArr (map JNum ts)"
  shows "check_annoyed nw (JObj kvs) (JNum th) (JNum w) =
           Inr (JObj (AList.update ''prompt_timestamps''
                        (JArr (map JNum (filter (\<lambda>t. nw - t < w) ts @ [nw]))) kvs),
                th \<le> of_nat (length (filter (\<lambda>t. nw - t < w) ts @ [nw])))"
  using assms by (simp add: check_annoyed_def recent_nums Let_def)

text \<open>
  Claim C3, as amended.  For every \<^verbatim>\<open>UserPromptSubmit\<close> event that is past the enabled
  check and the agent-session check, with numeric stored timestamps, threshold and window:
  when the \<^verbatim>\<open>user.spam\<close> toggle is absent or true, the mapping leaves
  \<^verbatim>\<open>prompt_timestamps\<close> pruned with the clock reading appended, whatever the other
  toggles say and whichever category results; when \<^verbatim>\<open>user.spam\<close> is switched off,
  \<^verbatim>\<open>check_annoyed\<close> is not called and the timestamps stay as stored.  Every state the
  invocation saves holds these timestamps, and an invocation that returns normally has
  saved one.
\<close>

theorem prompt_timestamps_updated:
  assumes "stdin e = Parsed (JObj ev)"
    and "load_json (config_file e) (Some default_config) = Inr (JObj cf)"
    and "load_json (state_file e) None = Inr (JObj st)"
    and "truthy (get_or cf ''enabled'' (JBool True))"
    and "get_or ev ''permission_mode'' (JStr []) \<noteq> JStr ''delegate''"
    and "py_set (get_or st ''agent_sessions'' (JArr [])) = Inr members"
    and "set_member (get_or ev ''session_id'' (JStr [])) members = Inr False"
    and "get_or ev ''hook_event_name'' (JStr []) = JStr ''UserPromptSubmit''"
    and "project_name (get_or ev ''cwd'' (JStr [])) = Inr project"
    and "get_or cf ''categories'' (JObj []) = JObj cats"
    and "get_or cf ''annoyed_threshold'' (JNum 3) = JNum threshold"
    and "get_or cf ''annoyed_window_seconds'' (JNum 10) = JNum window"
    and "get_or st ''prompt_timestamps'' (JArr []) = JArr (map JNum ts)"
    and "after_event =
           (if truthy (get_or cats ''user.spam'' (JBool True))
            then filter (\<lambda>t. now e - t < window) ts @ [now e] else ts)"
  shows "(\<exists>d st'. map_event (now e) (JObj cf) (JObj cats) (JStr ''UserPromptSubmit'')
                    (get_or ev ''notification_type'' (JStr [])) project (JObj st)
                  = Inr (Some (d, JObj st'))
                \<and> get_or st' ''prompt_timestamps'' (JArr []) = JArr (map JNum after_event))
       \<and> (\<forall>s. saved_state (fst (main e)) = Some s \<longrightarrow>
             dict_get s ''prompt_timestamps'' (JArr []) = Inr (JArr (map JNum after_event)))
       \<and> (snd (main e) = None \<longrightarrow> saved_state (fst (main e)) \<noteq> None)"
proof -
  let ?nt = "get_or ev ''notification_type'' (JStr [])"
  let ?new = "JArr (map JNum after_event)"
  let ?spam = "truthy (get_or cats ''user.spam'' (JBool True))"
  let ?burst = "threshold \<le> of_nat (length (filter (\<lambda>t. now e - t < window) ts @ [now e]))"
  have m: "main e =
     handle_event e (JObj cf) (get_or cf ''volume'' (JNum (1 / 2)))
       (get_or cf ''active_pack'' (JStr ''peon'')) (JObj cats)
       (get_or cf ''desktop_notifications'' (JBool True)) (JStr ''UserPromptSubmit'') ?nt
       (get_or ev ''cwd'' (JStr [])) (JObj st)"
    using assms(1-8,10) by (simp add: main_def)
  have ca: "check_annoyed (now e) (JObj st) (JNum threshold) (JNum window) =
           Inr (JObj (AList.update ''prompt_timestamps''
                  (JArr (map JNum (filter (\<lambda>t. now e - t < window) ts @ [now e]))) st), ?burst)"
    using assms(13) by (rule check_annoyed_nums')
  have "\<exists>d st'. map_event (now e) (JObj cf) (JObj cats) (JStr ''UserPromptSubmit'') ?nt
                        project (JObj st) = Inr (Some (d, JObj st'))
               \<and> get_or st' ''prompt_timestamps'' (JArr []) = ?new"
  proof (cases ?spam)
    case True
    then show ?thesis
      using assms(11,12,14)
      by (cases ?burst) (simp_all add: map_event_def ca del: length_append)
  next
    case False
    then show ?thesis
      using assms(11,12,13,14) by (simp add: map_event_def)
  qed
  then obtain d st' where me: "map_event (now e) (JObj cf) (JObj cats) (JStr ''UserPromptSubmit'') ?nt
                        project (JObj st) = Inr (Some (d, JObj st'))"
    and g: "get_or st' ''prompt_timestamps'' (JArr []) = ?new"
    by blast
  have saved: "dict_get s ''prompt_timestamps'' (JArr []) = Inr ?new"
    if "saved_state (fst (main e)) = Some s" for s
  proof -
    from that obtain c where
      "saved_state (fst (act e (get_or cf ''volume'' (JNum (1 / 2)))
          (get_or cf ''active_pack'' (JStr ''peon''))
          (get_or cf ''desktop_notifications'' (JBool True)) project d c (JObj st'))) = Some s"
      unfolding m
      by (auto simp: handle_event_def assms(9) me raising_def split: sum.splits)
    then have "dict_get s ''prompt_timestamps'' (JArr [])
                 = dict_get (JObj st') ''prompt_timestamps'' (JArr [])"
      by (rule act_saved) simp
    then show ?thesis using g by simp
  qed
  have ret: "saved_state (fst (main e)) \<noteq> None" if "snd (main e) = None"
    using that unfolding m
    by (auto simp: handle_event_def assms(9) me raising_def
             split: sum.splits dest: act_returns_saved)
  show ?thesis
    using me g saved ret by blast
qed

text \<open>
  The theorem with \<^verbatim>\<open>task.acknowledge\<close> switched off: no burst, so the resulting
  category is the disabled \<^verbatim>\<open>task.acknowledge\<close> and no sound is looked up, yet the
  timestamp 900 is pruned and the clock reading 1000 is appended.
\<close>

theorem prompt_timestamps_updated_witness:
  "main (prompt_env\<lparr>config_file := Parsed ack_off_config\<rparr>) =
     ([SetTitle ''claude: working'',
       SaveState (JObj [(''prompt_timestamps'', JArr [JNum 995, JNum 1000])])], None)"
  using prompt_timestamps_updated
    [of "prompt_env\<lparr>config_file := Parsed ack_off_config\<rparr>"
        "[(''hook_event_name'', JStr ''UserPromptSubmit'')]"
        "[(''categories'', JObj [(''task.acknowledge'', JBool False)])]"
        "[(''prompt_timestamps'', JArr [JNum 900, JNum 995])]" "[]" "''claude''"
        "[(''task.acknowledge'', JBool False)]" 3 10 "[900, 995]" "[995, 1000]"]
  by (simp add: prompt_env_def ack_off_config_def fresh_env_def event_of_def
        load_json_def py_set_def set_member_def project_name_def main_def handle_event_def
        map_event_def category_enabled_check_def act_def check_annoyed_def
        path_join_def default_config_def is_OSError_def isalnum_def)

text \<open>
  Claim C3 as stated fails when \<^verbatim>\<open>user.spam\<close> is switched off: the state is saved with
  the timestamps it was loaded with, the one older than the window included and the clock
  reading 1000 not appended.
\<close>

theorem prompt_timestamps_spam_off_counterexample:
  "main (prompt_env\<lparr>config_file := Parsed spam_off_config\<rparr>) =
     ([SetTitle ''claude: working'',
       SaveState (JObj [(''prompt_timestamps'', JArr [JNum 900, JNum 995])])], None)
   \<and> now prompt_env = 1000"
  by (simp add: prompt_env_def spam_off_config_def fresh_env_def event_of_def
        load_json_def py_set_def set_member_def project_name_def main_def handle_event_def
        map_event_def category_enabled_check_def act_def check_annoyed_def pick_sound_def
        path_join_def default_config_def is_OSError_def isalnum_def)

section \<open>The sound picker\<close>

lemma py_eq_JStr_left [simp]: "py_eq (JStr s) x = (x = JStr s)"
  by (cases x) auto

lemma not_last_files:
  "list_all2 has_file ss files \<Longrightarrow>
   \<exists>pool. not_last lst ss = Inr pool
        \<and> list_all2 has_file pool (filter (\<lambda>f. lst \<noteq> JStr f) files)"
proof (induction rule: list_all2_induct)
  case Nil
  then show ?case by simp
next
  case (Cons s ss f files)
  then obtain pool where "not_last lst ss = Inr pool"
      and "list_all2 has_file pool (filter (\<lambda>f. lst \<noteq> JStr f) files)"
    by blast
  with Cons.hyps(1) Cons.hyps(1)[unfolded has_file_def] show ?case
    by auto
qed

lemma pick_sound_pool:
  assumes "load_json (manifest_file e (path_join pack_dir ''openpeon.json'')) None = Inr (JObj mf)"
    and "get_or mf ''categories'' (JObj []) = JObj cs"
    and "get_or cs cat (JObj []) = JObj c"
    and "get_or c ''sounds'' (JArr []) = JArr ss"
    and "list_all2 has_file ss files"
    and "get_or st ''last_played'' (JObj []) = JObj played"
    and "lst = get_or played cat (JStr [])"
    and "pool = (if length files \<le> 1 then files else filter (\<lambda>f. lst \<noteq> JStr f) files)"
    and "pool \<noteq> []"
  shows "pick_sound e pack_dir cat (JObj st) =
           Inr (Some (path_join pack_dir (pool ! (draw e mod length pool))),
                remember st played cat (pool ! (draw e mod length pool)))"
proof (cases "length files \<le> 1")
  case True
  then obtain f where f: "files = [f]"
    using assms(8,9) by (cases files) auto
  then obtain s where s: "ss = [s]" and sf: "subscript s ''file'' = Inr (JStr f)"
    using assms(5) by (auto simp: list_all2_Cons2 has_file_def)
  show ?thesis
    using assms(1-4,6,8) f
    by (simp add: pick_sound_def s sf remember_def assms(7)[symmetric])
next
  case False
  have len: "length ss = length files"
    using assms(5) by (rule list_all2_lengthD)
  obtain ps where nl: "not_last lst ss = Inr ps" and ph: "list_all2 has_file ps pool"
    using not_last_files[OF assms(5), of lst] False assms(8) by auto
  have pl: "length ps = length pool"
    using ph by (rule list_all2_lengthD)
  let ?i = "draw e mod length pool"
  have i: "?i < length pool"
    using assms(9) by simp
  have hf: "subscript (ps ! ?i) ''file'' = Inr (JStr (pool ! ?i))"
    using ph i by (simp add: list_all2_nthD2 has_file_def[symmetric])
  have pne: "ps \<noteq> []"
    using assms(9) pl by auto
  have big: "\<not> length ss \<le> Suc 0" "ss \<noteq> []"
    using False len by auto
  show ?thesis
    using assms(1-4,6) big pne
    by (simp add: pick_sound_def nl pl hf remember_def assms(7)[symmetric])
qed


lemma pick_sound_none:
  assumes "load_json (manifest_file e (path_join pack_dir ''openpeon.json'')) None = Inr (JObj mf)"
    and "get_or mf ''categories'' (JObj []) = JObj cs"
    and "get_or cs cat (JObj []) = JObj c"
    and "get_or c ''sounds'' (JArr []) = JArr []"
  shows "pick_sound e pack_dir cat state = Inr (None, state)"
  using assms by (simp add: pick_sound_def)

lemma remember_last_played:
  "on_ok (dict_get (remember st played cat f) ''last_played'' (JObj []))
         (\<lambda>p. dict_get p cat (JStr [])) = Inr (JStr f)"
  by (simp add: remember_def)

text \<open>
  Claim C4, as amended.  For a manifest whose candidates for the category each name a
  file, and any last-played value: no candidate gives \<open>None\<close> and leaves the state as it
  is; a single candidate is returned even when it is the last played; with two or more
  candidates of which at least one differs from the last played, the result is the entry
  of the pool (the candidates other than the last played, in manifest order) at the drawn
  index, so it differs from the last played and every pool position is reached by
  exactly the draws that hit it; with candidates \<open>a\<close>, \<open>b\<close> and \<open>a\<close> played last the
  result is \<open>b\<close> for every draw.  In each case with a result the state's
  \<^verbatim>\<open>last_played\<close> entry for the category becomes the chosen file.
\<close>

theorem pick_sound_avoids_repeat:
  assumes "load_json (manifest_file e (path_join pack_dir ''openpeon.json'')) None = Inr (JObj mf)"
    and "get_or mf ''categories'' (JObj []) = JObj cs"
    and "get_or cs cat (JObj []) = JObj c"
    and "get_or c ''sounds'' (JArr []) = JArr ss"
    and "list_all2 has_file ss files"
    and "get_or st ''last_played'' (JObj []) = JObj played"
    and "lst = get_or played cat (JStr [])"
    and "pool = filter (\<lambda>f. lst \<noteq> JStr f) files"
    and "chosen = pool ! (draw e mod length pool)"
  shows "(files = [] \<longrightarrow> pick_sound e pack_dir cat (JObj st) = Inr (None, JObj st))
       \<and> (\<forall>f. files = [f] \<longrightarrow>
             pick_sound e pack_dir cat (JObj st)
             = Inr (Some (path_join pack_dir f), remember st played cat f))
       \<and> (2 \<le> length files \<and> pool \<noteq> [] \<longrightarrow>
             pick_sound e pack_dir cat (JObj st)
             = Inr (Some (path_join pack_dir chosen), remember st played cat chosen)
           \<and> chosen \<in> set files \<and> lst \<noteq> JStr chosen)
       \<and> (\<forall>a b. files = [a, b] \<and> lst = JStr a \<and> a \<noteq> b \<longrightarrow>
             pick_sound e pack_dir cat (JObj st)
             = Inr (Some (path_join pack_dir b), remember st played cat b))
       \<and> (\<forall>f. on_ok (dict_get (remember st played cat f) ''last_played'' (JObj []))
                 (\<lambda>p. dict_get p cat (JStr [])) = Inr (JStr f))"
proof (intro conjI allI impI)
  assume "files = []"
  then have "ss = []" using assms(5) by simp
  then show "pick_sound e pack_dir cat (JObj st) = Inr (None, JObj st)"
    using assms(1-4) by (simp add: pick_sound_none)
next
  fix f assume "files = [f]"
  then show "pick_sound e pack_dir cat (JObj st)
             = Inr (Some (path_join pack_dir f), remember st played cat f)"
    using pick_sound_pool[OF assms(1-7) refl] by simp
next
  assume h: "2 \<le> length files \<and> pool \<noteq> []"
  then have "pool = (if length files \<le> 1 then files else filter (\<lambda>f. lst \<noteq> JStr f) files)"
    using assms(8) by simp
  then show "pick_sound e pack_dir cat (JObj st)
             = Inr (Some (path_join pack_dir chosen), remember st played cat chosen)"
    using pick_sound_pool[OF assms(1-7) refl] h assms(9) by simp
  have "chosen \<in> set pool"
    using h assms(9) by simp
  then show "chosen \<in> set files" "lst \<noteq> JStr chosen"
    using assms(8) by auto
next
  fix a b assume h: "files = [a, b] \<and> lst = JStr a \<and> a \<noteq> b"
  then have "(if length files \<le> 1 then files else filter (\<lambda>f. lst \<noteq> JStr f) files) = [b]"
    by auto
  then show "pick_sound e pack_dir cat (JObj st)
             = Inr (Some (path_join pack_dir b), remember st played cat b)"
    using pick_sound_pool[OF assms(1-7) refl] by simp
next
  fix f show "on_ok (dict_get (remember st played cat f) ''last_played'' (JObj []))
                 (\<lambda>p. dict_get p cat (JStr [])) = Inr (JStr f)"
    by (rule remember_last_played)
qed

text \<open>The theorem at the two-sound pack with \<^verbatim>\<open>a.wav\<close> played last and a draw of 7.\<close>

theorem pick_sound_avoids_repeat_witness:
  "pick_sound (two_sound_env\<lparr>draw := 7\<rparr>) ''/plugin/packs/peon'' ''task.complete'' (JObj played_a)
     = Inr (Some ''/plugin/packs/peon/b.wav'',
            JObj [(''last_played'', JObj [(''task.complete'', JStr ''b.wav'')])])"
  using pick_sound_avoids_repeat
    [of "two_sound_env\<lparr>draw := 7\<rparr>" "''/plugin/packs/peon''"
        "[(''categories'', JObj [(''task.complete'',
            JObj [(''sounds'', JArr [JObj [(''file'', JStr ''a.wav'')],
                                     JObj [(''file'', JStr ''b.wav'')]])])])]"
        "[(''task.complete'',
            JObj [(''sounds'', JArr [JObj [(''file'', JStr ''a.wav'')],
                                     JObj [(''file'', JStr ''b.wav'')]])])]"
        "''task.complete''"
        "[(''sounds'', JArr [JObj [(''file'', JStr ''a.wav'')],
                                     JObj [(''file'', JStr ''b.wav'')]])]"
        "[JObj [(''file'', JStr ''a.wav'')], JObj [(''file'', JStr ''b.wav'')]]"
        "[''a.wav'', ''b.wav'']" played_a "[(''task.complete'', JStr ''a.wav'')]"
        "JStr ''a.wav''" "[''b.wav'']" "''b.wav''"]
  by (simp add: two_sound_env_def two_sound_pack_def fresh_env_def load_json_def has_file_def
        played_a_def remember_def path_join_def)

text \<open>
  Claim C4 as stated fails for two or more candidates that all equal the last played:
  with \<^verbatim>\<open>a.wav\<close> listed twice and played last no candidate is returned, the pool is
  empty and \<^verbatim>\<open>random.choice\<close> raises \<^verbatim>\<open>IndexError\<close>.
\<close>

theorem pick_sound_empty_pool_counterexample:
  "pick_sound stop_env ''/plugin/packs/peon'' ''task.complete'' (JObj played_a) = Inl IndexError"
  by (simp add: pick_sound_def stop_env_def duplicate_pack_def fresh_env_def load_json_def
        played_a_def)

section \<open>Agent sessions\<close>

lemma py_eq_key: "hashable x \<Longrightarrow> hashable y \<Longrightarrow> py_eq x y = (key_of x = key_of y)"
  by (cases x; cases y) auto

lemma list_ex_set_add:
  "hashable s \<Longrightarrow> hashable x \<Longrightarrow> list_all hashable acc \<Longrightarrow>
   list_ex (\<lambda>y. py_eq y s) (set_add acc x) = (list_ex (\<lambda>y. py_eq y s) acc \<or> py_eq x s)"
  unfolding set_add_def list_ex_iff list_all_iff
  by (auto simp: py_eq_key)

lemma hashable_set_add:
  "hashable x \<Longrightarrow> list_all hashable acc \<Longrightarrow> list_all hashable (set_add acc x)"
  by (simp add: set_add_def)

lemma hashable_foldl:
  "list_all hashable xs \<Longrightarrow> list_all hashable acc \<Longrightarrow> list_all hashable (foldl set_add acc xs)"
  by (induction xs arbitrary: acc) (simp_all add: hashable_set_add)

lemma list_ex_foldl:
  "hashable s \<Longrightarrow> list_all hashable xs \<Longrightarrow> list_all hashable acc \<Longrightarrow>
   list_ex (\<lambda>y. py_eq y s) (foldl set_add acc xs)
     = (list_ex (\<lambda>y. py_eq y s) acc \<or> list_ex (\<lambda>y. py_eq y s) xs)"
  by (induction xs arbitrary: acc) (auto simp: list_ex_set_add hashable_set_add)

lemma set_list_of_set: "set (list_of_set ord s) = set s"
  by (auto simp: list_of_set_def Let_def dest: mset_eq_setD)

lemma py_set_hashable: "py_set x = Inr members \<Longrightarrow> list_all hashable members"
  by (cases "py_iter x") (auto simp: py_set_def hashable_foldl split: if_splits)

lemma py_eq_refl_hashable: "hashable s \<Longrightarrow> py_eq s s"
  by (simp add: py_eq_key)

lemma member_relisted:
  assumes "list_all hashable members" and "hashable sid" and "hashable s"
  shows "on_ok (py_set (JArr (list_of_set ord (set_add members sid)))) (set_member s)
           = Inr (list_ex (\<lambda>y. py_eq y s) members \<or> py_eq sid s)"
proof -
  let ?l = "list_of_set ord (set_add members sid)"
  have h: "list_all hashable ?l"
    using hashable_set_add[OF assms(2,1)] by (simp add: list_all_iff set_list_of_set)
  have "list_ex (\<lambda>y. py_eq y s) (foldl set_add [] ?l) = list_ex (\<lambda>y. py_eq y s) ?l"
    using list_ex_foldl[OF assms(3) h, of "[]"] by simp
  also have "\<dots> = list_ex (\<lambda>y. py_eq y s) (set_add members sid)"
    by (simp add: list_ex_iff set_list_of_set)
  also have "\<dots> = (list_ex (\<lambda>y. py_eq y s) members \<or> py_eq sid s)"
    by (rule list_ex_set_add[OF assms(3,2,1)])
  finally show ?thesis
    using h assms(3) by (simp add: py_set_def set_member_def)
qed

lemma check_annoyed_keeps:
  "check_annoyed nw state th w = Inr (state', b) \<Longrightarrow> k \<noteq> ''prompt_timestamps'' \<Longrightarrow>
   dict_get state' k d = dict_get state k d"
  by (auto simp: check_annoyed_def on_ok_def Let_def split: sum.splits option.splits
           dest: dict_set_other)

lemma map_event_keeps:
  assumes "map_event nw config cat_config en nt project state = Inr (Some (d, state'))"
    and "k \<noteq> ''prompt_timestamps''"
  shows "dict_get state' k dflt = dict_get state k dflt"
proof -
  have "state' = state \<or> (\<exists>th w b. check_annoyed nw state th w = Inr (state', b))"
    using assms(1)
    by (auto simp: map_event_def on_ok_def split: if_splits sum.splits)
  then show ?thesis
    using assms(2) by (auto dest: check_annoyed_keeps)
qed

lemma handle_event_saved:
  assumes "saved_state (fst (handle_event e config volume active_pack cat_config desktop_notif
             en nt cwd state)) = Some s"
    and "k \<noteq> ''last_played''" and "k \<noteq> ''prompt_timestamps''"
  shows "dict_get s k dflt = dict_get state k dflt"
proof -
  from assms(1) obtain project d c state' where
    me: "map_event (now e) config cat_config en nt project state = Inr (Some (d, state'))"
    and sv: "saved_state (fst (act e volume active_pack desktop_notif project d c state')) = Some s"
    by (auto simp: handle_event_def raising_def split: sum.splits option.splits if_splits)
  have "dict_get s k dflt = dict_get state' k dflt"
    using sv assms(2) by (rule act_saved)
  also have "\<dots> = dict_get state k dflt"
    using me assms(3) by (rule map_event_keeps)
  finally show ?thesis .
qed

text \<open>
  An invocation does nothing, or takes the marking path, or goes on to
  \<open>handle_event\<close> with a session id that is not in \<^verbatim>\<open>agent_sessions\<close>.
\<close>

lemma main_shape:
  "fst (main e) = []
   \<or> (\<exists>event state members sid st'.
         stdin e = Parsed event
       \<and> load_json (state_file e) None = Inr state
       \<and> on_ok (dict_get state ''agent_sessions'' (JArr [])) py_set = Inr members
       \<and> dict_get event ''session_id'' (JStr []) = Inr sid
       \<and> hashable sid
       \<and> dict_set state ''agent_sessions''
            (JArr (list_of_set (set_order e) (set_add members sid))) = Inr st'
       \<and> main e = ([SaveState st'], None))
   \<or> (\<exists>event config state members sid volume active_pack cat_config desktop_notif en nt cwd.
         stdin e = Parsed event
       \<and> load_json (state_file e) None = Inr state
       \<and> on_ok (dict_get state ''agent_sessions'' (JArr [])) py_set = Inr members
       \<and> dict_get event ''session_id'' (JStr []) = Inr sid
       \<and> set_member sid members = Inr False
       \<and> main e = handle_event e config volume active_pack cat_config desktop_notif
                     en nt cwd state)"
  apply (auto simp: main_def raising_def set_insert_def
           split: read_result.splits sum.splits if_splits)
    apply blast+
  done

lemma flagged_iff:
  "flagged s file =
     (on_ok (on_ok (load_json file None)
               (\<lambda>state. on_ok (dict_get state ''agent_sessions'' (JArr [])) py_set))
            (set_member s) = Inr True)"
  by (simp add: flagged_def on_ok_def split: sum.splits)

lemma flagged_members:
  assumes "flagged s file" and "load_json file None = Inr state"
    and "on_ok (dict_get state ''agent_sessions'' (JArr [])) py_set = Inr members"
  shows "hashable s" and "list_ex (\<lambda>y. py_eq y s) members" and "list_all hashable members"
proof -
  have "set_member s members = Inr True"
    using assms by (simp add: flagged_iff)
  then show "hashable s" "list_ex (\<lambda>y. py_eq y s) members"
    by (auto simp: set_member_def split: if_splits)
  show "list_all hashable members"
    using assms(3) by (cases state) (auto simp: on_ok_def dest: py_set_hashable)
qed

lemma main_keeps_flagged:
  assumes "flagged s (state_file e)" and "saved_state (fst (main e)) = Some st'"
  shows "flagged s (Parsed st')"
  using main_shape[of e]
proof (elim disjE exE conjE)
  assume "fst (main e) = []"
  with assms(2) show ?thesis by simp
next
  fix event state members sid st''
  assume h: "load_json (state_file e) None = Inr state"
    "on_ok (dict_get state ''agent_sessions'' (JArr [])) py_set = Inr members"
    "hashable sid"
    "dict_set state ''agent_sessions''
       (JArr (list_of_set (set_order e) (set_add members sid))) = Inr st''"
    "main e = ([SaveState st''], None)"
  have st: "st'' = st'"
    using assms(2) h(5) by simp
  note fm = flagged_members[OF assms(1) h(1,2)]
  have "on_ok (py_set (JArr (list_of_set (set_order e) (set_add members sid)))) (set_member s)
          = Inr True"
    using member_relisted[OF fm(3) h(3) fm(1), of "set_order e"] fm(2) by simp
  then show ?thesis
    using h(4) st by (cases state) (auto simp: flagged_iff load_json_def)
next
  fix event config state members sid volume active_pack cat_config desktop_notif en nt cwd
  assume h: "load_json (state_file e) None = Inr state"
    "on_ok (dict_get state ''agent_sessions'' (JArr [])) py_set = Inr members"
    "main e = handle_event e config volume active_pack cat_config desktop_notif en nt cwd state"
  have "dict_get st' ''agent_sessions'' (JArr []) = dict_get state ''agent_sessions'' (JArr [])"
    using assms(2) unfolding h(3) by (rule handle_event_saved) simp_all
  then show ?thesis
    using assms(1) h(1) by (simp add: flagged_iff load_json_def)
qed

lemma main_flagged_silent:
  assumes "flagged s (state_file e)" and "session_id_of e = Some s"
  shows "fst (main e) = [] \<or> (\<exists>st'. main e = ([SaveState st'], None))"
  using main_shape[of e]
proof (elim disjE exE conjE)
  assume "fst (main e) = []"
  then show ?thesis by simp
next
  fix st'' assume "main e = ([SaveState st''], None)"
  then show ?thesis by blast
next
  fix event state members sid
  assume h: "stdin e = Parsed event" "load_json (state_file e) None = Inr state"
    "on_ok (dict_get state ''agent_sessions'' (JArr [])) py_set = Inr members"
    "dict_get event ''session_id'' (JStr []) = Inr sid"
    "set_member sid members = Inr False"
  have "sid = s"
    using assms(2) h(1,4) by (simp add: session_id_of_def)
  then have False
    using assms(1) h(2,3,5) by (simp add: flagged_iff)
  then show ?thesis ..
qed

lemma silent_flagged:
  "flagged s (state_file e) \<Longrightarrow> session_id_of e = Some s \<Longrightarrow> silent (main e)"
  using main_flagged_silent[of s e] by (auto simp: silent_def)

lemma state_after_flagged:
  "flagged s file \<Longrightarrow> flagged s (state_after file (main (e\<lparr>state_file := file\<rparr>)))"
  using main_keeps_flagged[of s "e\<lparr>state_file := file\<rparr>"]
  by (auto simp: state_after_def split: option.splits)

lemma run_flagged_silent:
  "flagged s sf \<Longrightarrow> i < length es \<Longrightarrow> session_id_of (es ! i) = Some s \<Longrightarrow>
   silent (run sf es ! i)"
proof (induction es arbitrary: sf i)
  case Nil
  then show ?case by simp
next
  case (Cons e es)
  show ?case
  proof (cases i)
    case 0
    then show ?thesis
      using Cons.prems silent_flagged[of s "e\<lparr>state_file := sf\<rparr>"]
      by (simp add: Let_def session_id_of_def)
  next
    case (Suc j)
    then show ?thesis
      using Cons.prems Cons.IH[OF state_after_flagged[OF Cons.prems(1)], of j e]
      by (simp add: Let_def)
  qed
qed

lemma main_marks:
  assumes "stdin e = Parsed (JObj ev)"
    and "load_json (config_file e) (Some default_config) = Inr (JObj cf)"
    and "truthy (get_or cf ''enabled'' (JBool True))"
    and "load_json (state_file e) None = Inr (JObj st)"
    and "py_set (get_or st ''agent_sessions'' (JArr [])) = Inr members"
    and "get_or ev ''permission_mode'' (JStr []) = JStr ''delegate''"
    and "hashable (get_or ev ''session_id'' (JStr []))"
  shows "main e = ([SaveState (marked e st members (get_or ev ''session_id'' (JStr [])))], None)"
  using assms by (simp add: main_def set_insert_def marked_def)

lemma marked_flagged:
  assumes "py_set (get_or st ''agent_sessions'' (JArr [])) = Inr members"
    and "hashable sid" and "hashable s"
  shows "flagged s (Parsed (marked e st members sid))
           = (list_ex (\<lambda>y. py_eq y s) members \<or> py_eq sid s)"
  using member_relisted[OF py_set_hashable[OF assms(1)] assms(2,3), of "set_order e"]
  by (simp add: flagged_iff load_json_def marked_def)

lemma marked_other:
  "k \<noteq> ''agent_sessions'' \<Longrightarrow> dict_get (marked e st members sid) k d = dict_get (JObj st) k d"
  by (simp add: marked_def)

text \<open>
  Claim C1, as amended.  Under an enabled config, with a state whose
  \<^verbatim>\<open>agent_sessions\<close> can be made a set and a hashable session id, an event with
  permission mode \<^verbatim>\<open>delegate\<close> does one thing: it saves the loaded state with the
  session id added to \<^verbatim>\<open>agent_sessions\<close> and returns.  No title, sound or notification
  comes of the triggering event; the session id is flagged in the saved state and every id
  flagged before stays flagged; every other key of the state is saved as it was loaded.
  In every run of later invocations from that state, each event of the flagged session
  gives no title, no sound and no notification; and the same holds from any state file and
  any session id flagged in it.
\<close>

theorem delegate_marks_and_suppresses:
  assumes "stdin e = Parsed (JObj ev)"
    and "load_json (config_file e) (Some default_config) = Inr (JObj cf)"
    and "truthy (get_or cf ''enabled'' (JBool True))"
    and "load_json (state_file e) None = Inr (JObj st)"
    and "py_set (get_or st ''agent_sessions'' (JArr [])) = Inr members"
    and "get_or ev ''permission_mode'' (JStr []) = JStr ''delegate''"
    and "get_or ev ''session_id'' (JStr []) = sid"
    and "hashable sid"
  shows "main e = ([SaveState (marked e st members sid)], None)
       \<and> silent (main e)
       \<and> flagged sid (Parsed (marked e st members sid))
       \<and> (\<forall>s. flagged s (state_file e) \<longrightarrow> flagged s (Parsed (marked e st members sid)))
       \<and> (\<forall>k d. k \<noteq> ''agent_sessions'' \<longrightarrow>
             dict_get (marked e st members sid) k d = dict_get (JObj st) k d)
       \<and> (\<forall>es i. i < length es \<and> session_id_of (es ! i) = Some sid \<longrightarrow>
             silent (run (Parsed (marked e st members sid)) es ! i))
       \<and> (\<forall>s sf es i. flagged s sf \<and> i < length es \<and> session_id_of (es ! i) = Some s \<longrightarrow>
             silent (run sf es ! i))"
proof -
  have m: "main e = ([SaveState (marked e st members sid)], None)"
    using main_marks[OF assms(1-6)] assms(7,8) by simp
  have f: "flagged sid (Parsed (marked e st members sid))"
    using marked_flagged[OF assms(5,8,8), of e] assms(8) by (simp add: py_eq_refl_hashable)
  have mono: "flagged s (Parsed (marked e st members sid))" if "flagged s (state_file e)" for s
  proof -
    have "on_ok (dict_get (JObj st) ''agent_sessions'' (JArr [])) py_set = Inr members"
      using assms(5) by simp
    note fm = flagged_members[OF that assms(4) this]
    show ?thesis
      using marked_flagged[OF assms(5,8) fm(1), of e] fm(2) by simp
  qed
  show ?thesis
    using m f mono run_flagged_silent
    by (auto simp: silent_def marked_other)
qed

text \<open>
  The theorem on a fresh installation: a \<^verbatim>\<open>delegate\<close> event of session \<^verbatim>\<open>s1\<close> saves
  \<^verbatim>\<open>{"agent_sessions": ["s1"]}\<close>, and a \<^verbatim>\<open>Stop\<close> event of \<^verbatim>\<open>s1\<close> after it does
  nothing.
\<close>

theorem delegate_marks_and_suppresses_witness:
  "run (Fails FileNotFoundError) [delegate_env, stop_s1_env] =
     [([SaveState (JObj [(''agent_sessions'', JArr [JStr ''s1''])])], None), ([], None)]"
  using delegate_marks_and_suppresses
    [of delegate_env "[(''permission_mode'', JStr ''delegate''), (''session_id'', JStr ''s1'')]"
        "[(''enabled'', JBool True), (''volume'', JNum (1 / 2)), (''active_pack'', JStr ''peon''),
      (''desktop_notifications'', JBool True),
      (''annoyed_threshold'', JNum 3), (''annoyed_window_seconds'', JNum 10),
      (''categories'', JObj [])]" "[]" "[]" "JStr ''s1''"]
  by (simp add: delegate_env_def stop_s1_env_def fresh_env_def event_of_def load_json_def
        default_config_def py_set_def marked_def set_add_def list_of_set_def state_after_def
        main_def set_insert_def set_member_def Let_def)

text \<open>
  Claim C1 as stated fails under a config with \<^verbatim>\<open>enabled\<close> false: the enabled check of
  line 296 comes before the marking, the \<^verbatim>\<open>delegate\<close> event of \<^verbatim>\<open>s1\<close> saves nothing,
  and a later \<^verbatim>\<open>Stop\<close> event of \<^verbatim>\<open>s1\<close> under the default config writes its title.
\<close>

theorem delegate_under_disabled_config_counterexample:
  "run (Fails FileNotFoundError) [delegate_off_env, stop_s1_env] =
     [([], None), ([SetTitle ''* claude: done'', SaveState (JObj [])], None)]"
  by code_simp

lemma empty_string_listed:
  "JStr [] \<in> set (list_of_set ord (set_add members (JStr [])))"
  by (auto simp: set_list_of_set set_add_def list_ex_iff)

lemma session_id_missing:
  "stdin e = Parsed (JObj ev) \<Longrightarrow> map_of ev ''session_id'' = None \<Longrightarrow>
   session_id_of e = Some (JStr [])"
  by (simp add: session_id_of_def get_or_def)

text \<open>
  Claim C10, as amended.  Under an enabled config, with a state whose
  \<^verbatim>\<open>agent_sessions\<close> can be made a set, a \<^verbatim>\<open>delegate\<close> event whose session id is
  missing or empty saves the state with the empty string among \<^verbatim>\<open>agent_sessions\<close>.  An
  event without a \<^verbatim>\<open>session_id\<close> field carries the empty string as its session id, so
  in every run of later invocations from that state each event without a session id gives
  no title, no sound and no notification.
\<close>

theorem missing_session_id_flags_empty_string:
  assumes "stdin e = Parsed (JObj ev)"
    and "load_json (config_file e) (Some default_config) = Inr (JObj cf)"
    and "truthy (get_or cf ''enabled'' (JBool True))"
    and "load_json (state_file e) None = Inr (JObj st)"
    and "py_set (get_or st ''agent_sessions'' (JArr [])) = Inr members"
    and "get_or ev ''permission_mode'' (JStr []) = JStr ''delegate''"
    and "get_or ev ''session_id'' (JStr []) = JStr []"
  shows "main e = ([SaveState (marked e st members (JStr []))], None)
       \<and> dict_get (marked e st members (JStr [])) ''agent_sessions'' (JArr [])
           = Inr (JArr (list_of_set (set_order e) (set_add members (JStr []))))
       \<and> JStr [] \<in> set (list_of_set (set_order e) (set_add members (JStr [])))
       \<and> flagged (JStr []) (Parsed (marked e st members (JStr [])))
       \<and> (\<forall>e' ev'. stdin e' = Parsed (JObj ev') \<and> map_of ev' ''session_id'' = None \<longrightarrow>
             session_id_of e' = Some (JStr []))
       \<and> (\<forall>es i. i < length es \<and> session_id_of (es ! i) = Some (JStr []) \<longrightarrow>
             silent (run (Parsed (marked e st members (JStr []))) es ! i))"
proof -
  have h: "hashable (JStr [])" by simp
  have m: "main e = ([SaveState (marked e st members (JStr []))], None)"
    using main_marks[OF assms(1-6)] assms(7) by simp
  have f: "flagged (JStr []) (Parsed (marked e st members (JStr [])))"
    using marked_flagged[OF assms(5) h h, of e] by simp
  show ?thesis
    using m f run_flagged_silent[OF f] empty_string_listed session_id_missing
    by (auto simp: marked_def)
qed

text \<open>
  The theorem on a fresh installation: the \<^verbatim>\<open>delegate\<close> event without a session id
  saves \<^verbatim>\<open>{"agent_sessions": [""]}\<close>, and the \<^verbatim>\<open>Stop\<close> event of an ordinary session
  without a session id does nothing.
\<close>

theorem missing_session_id_flags_empty_string_witness:
  "run (Fails FileNotFoundError) [anonymous_delegate_env, anonymous_stop_env] =
     [([SaveState (JObj [(''agent_sessions'', JArr [JStr []])])], None), ([], None)]"
  using missing_session_id_flags_empty_string
    [of anonymous_delegate_env "[(''permission_mode'', JStr ''delegate'')]"
        "[(''enabled'', JBool True), (''volume'', JNum (1 / 2)), (''active_pack'', JStr ''peon''),
      (''desktop_notifications'', JBool True),
      (''annoyed_threshold'', JNum 3), (''annoyed_window_seconds'', JNum 10),
      (''categories'', JObj [])]" "[]" "[]"]
  by (simp add: anonymous_delegate_env_def anonymous_stop_env_def fresh_env_def event_of_def
        load_json_def default_config_def py_set_def marked_def set_add_def list_of_set_def
        state_after_def main_def set_insert_def set_member_def Let_def)

text \<open>
  Claim C10 as stated fails under a config with \<^verbatim>\<open>enabled\<close> false: nothing is added
  or saved, and the later \<^verbatim>\<open>Stop\<close> event without a session id writes its title.
\<close>

theorem missing_session_id_disabled_counterexample:
  "run (Fails FileNotFoundError) [anonymous_delegate_off_env, anonymous_stop_env] =
     [([], None), ([SetTitle ''* claude: done'', SaveState (JObj [])], None)]"
  by code_simp

end
